theory Spec2Isabelle
  imports Main "HOL-Library.Sublist"
begin

section \<open>Go library functions the driver calls\<close>

text \<open>
  Go strings are byte sequences, as \<open>string\<close> is here. \<open>strings.HasPrefix\<close>,
  \<open>strings.HasSuffix\<close> and \<open>strings.TrimSuffix\<close>:
\<close>

definition HasPrefix :: "string \<Rightarrow> string \<Rightarrow> bool" where
  "HasPrefix s p = (take (length p) s = p)"

definition HasSuffix :: "string \<Rightarrow> string \<Rightarrow> bool" where
  "HasSuffix s p = (length p \<le> length s \<and> drop (length s - length p) s = p)"

definition TrimSuffix :: "string \<Rightarrow> string \<Rightarrow> string" where
  "TrimSuffix s p = (if HasSuffix s p then take (length s - length p) s else s)"

text \<open>
  \<open>strings.Split(s, sep)\<close> for a separator of one byte, the only use the driver makes of
  it (\<open>strings.Split(longName, "/")\<close>): one more part than there are separators, and one
  empty part for the empty string.
\<close>

fun Split :: "string \<Rightarrow> char \<Rightarrow> string list" where
  "Split [] sep = [[]]"
| "Split (c # cs) sep =
     (if c = sep then [] # Split cs sep
      else (case Split cs sep of [] \<Rightarrow> [[c]] | p # ps \<Rightarrow> (c # p) # ps))"

text \<open>
  \<open>strings.TrimSpace\<close> removes the leading and the trailing runes that
  \<open>unicode.IsSpace\<close> accepts: tab, line feed, vertical tab, form feed, carriage return and
  space, U+0085, U+00A0, U+1680, U+2000 to U+200A, U+2028, U+2029, U+202F, U+205F and
  U+3000. \<open>White_Space\<close> lists their UTF-8 encodings.
\<close>

definition White_Space :: "string list" where
  "White_Space =
     map (\<lambda>c. [c]) [CHR 0x09, CHR 0x0A, CHR 0x0B, CHR 0x0C, CHR 0x0D, CHR 0x20] @
     [[CHR 0xC2, CHR 0x85], [CHR 0xC2, CHR 0xA0], [CHR 0xE1, CHR 0x9A, CHR 0x80]] @
     map (\<lambda>c. [CHR 0xE2, CHR 0x80, c])
       [CHR 0x80, CHR 0x81, CHR 0x82, CHR 0x83, CHR 0x84, CHR 0x85, CHR 0x86, CHR 0x87,
        CHR 0x88, CHR 0x89, CHR 0x8A, CHR 0xA8, CHR 0xA9, CHR 0xAF] @
     [[CHR 0xE2, CHR 0x81, CHR 0x9F], [CHR 0xE3, CHR 0x80, CHR 0x80]]"

definition rune_at :: "string list \<Rightarrow> string \<Rightarrow> nat" where
  \<comment> \<open>the length of the encoding in \<open>rs\<close> that \<open>s\<close> starts with, 0 when there is none\<close>
  "rune_at rs s = (case find (\<lambda>r. prefix r s) rs of None \<Rightarrow> 0 | Some r \<Rightarrow> length r)"

function strip :: "string list \<Rightarrow> string \<Rightarrow> string" where
  "strip rs s = (if rune_at rs s = 0 \<or> s = [] then s else strip rs (drop (rune_at rs s) s))"
  by pat_completeness auto
termination
  by (relation "measure (\<lambda>(rs, s). length s)") auto

declare strip.simps [simp del]

definition TrimSpace :: "string \<Rightarrow> string" where
  "TrimSpace s = rev (strip (map rev White_Space) (rev (strip White_Space s)))"

text \<open>\<open>strconv.FormatInt(i, 10)\<close> and \<open>strconv.ParseInt(s, 10, 64)\<close>.\<close>

function digits :: "int \<Rightarrow> string" where
  "digits n = (if n < 10 then [char_of (48 + n)] else digits (n div 10) @ [char_of (48 + n mod 10)])"
  by pat_completeness auto
termination
  by (relation "measure nat") auto

declare digits.simps [simp del]

definition FormatInt :: "int \<Rightarrow> string" where
  "FormatInt i = (if i < 0 then CHR ''-'' # digits (- i) else digits i)"

fun number :: "int \<Rightarrow> string \<Rightarrow> int option" where
  \<comment> \<open>the value of a run of decimal digits, after the digits already read\<close>
  "number acc [] = Some acc"
| "number acc (c # cs) =
     (if 48 \<le> (of_char c :: int) \<and> (of_char c :: int) \<le> 57
      then number (10 * acc + (of_char c - 48)) cs else None)"

definition ParseInt :: "string \<Rightarrow> int option" where
  "ParseInt s =
     (case s of
        [] \<Rightarrow> None
      | c # cs \<Rightarrow>
          (let ds = (if c = CHR ''+'' \<or> c = CHR ''-'' then cs else s) in
           if ds = [] then None
           else (case number 0 ds of
                   None \<Rightarrow> None
                 | Some n \<Rightarrow>
                     (let v = (if c = CHR ''-'' then - n else n) in
                      if - (2 ^ 63) \<le> v \<and> v < 2 ^ 63 then Some v else None))))"

section \<open>Volumes and the external tools\<close>

text \<open>\<open>ByteSize\<close> is an \<open>int64\<close>; the driver compares and prints sizes and never computes with them.\<close>

type_synonym ByteSize = int

definition AsString :: "ByteSize \<Rightarrow> string" where
  "AsString bs = FormatInt bs @ ''B''"

record Volume =
  VGName :: string
  LVName :: string
  LVAttr :: string
  LVSize :: ByteSize
  Mounted :: bool
  Target :: string

text \<open>
  \<open>ThinPool\<close>: the pool's volume group is the field \<open>VGName\<close> in the source, named
  \<open>PoolVGName\<close> here because \<open>Volume\<close> has a field of that name; the mutex is left out,
  calls are modelled one after the other.
\<close>

record ThinPool =
  LongName :: string
  Name :: string
  PoolVGName :: string
  Volumes :: "Volume list"

text \<open>
  The tools are reached through \<open>execCommand\<close>, which the tests replace. A backend takes the
  argument vector (the command first) and its own state, and gives the result of
  \<open>cmd.Output()\<close> and its next state. The error of \<open>cmd.Output()\<close> is an
  \<open>*exec.ExitError\<close> with the exit code or another error (the command did not start).
  \<open>encoding/json\<close> is not part of the repository: \<open>Decoded\<close> is what \<open>json.Unmarshal\<close>
  makes of the output for the report structure of \<open>refreshVolumes\<close>, the \<open>lv\<close> rows of
  each element of \<open>report\<close>, and \<open>None\<close> when it returns an error. The rows are of the
  caller's \<open>Volume\<close> type, the parameter \<open>'v\<close>.
\<close>

datatype exec_error = ExitError int | StartError

record 'v cmd_result =
  Stdout :: string
  Decoded :: "'v list list option"
  Err :: "exec_error option"

type_synonym argv = "string list"
type_synonym ('v, 'w) backend = "argv \<Rightarrow> 'w \<Rightarrow> 'v cmd_result \<times> 'w"

text \<open>The state of a run: the backend's state and the commands run so far, oldest first.\<close>

type_synonym 'w sys = "'w \<times> argv list"

definition execCommand :: "(argv \<Rightarrow> 'w \<Rightarrow> 'r \<times> 'w) \<Rightarrow> argv \<Rightarrow> 'w sys \<Rightarrow> 'r \<times> 'w sys" where
  "execCommand be args s = (case be args (fst s) of (r, w) \<Rightarrow> (r, (w, snd s @ [args])))"

text \<open>
  Go errors: the error of a command returned as it is, \<open>fmt.Errorf\<close> of a message, that
  error and the output, and \<open>errors.New\<close>. \<open>nil\<close> is \<open>None\<close>.
\<close>

datatype error = CmdError exec_error | Errorf string exec_error string | ErrorNew string

text \<open>A call returns, panics (an index out of range) or ends the process (\<open>log.Fatalf\<close>).\<close>

datatype 'a outcome = Return 'a | Panic | Fatal

definition DeviceName :: "Volume \<Rightarrow> string" where
  "DeviceName volume = ''/dev/'' @ VGName volume @ ''/'' @ LVName volume"

definition findmnt :: "Volume \<Rightarrow> argv" where
  "findmnt volume = [''/usr/bin/findmnt'', ''-n'', ''-o'', ''TARGET'', ''--source'', DeviceName volume]"

definition UpdateMountStatus :: "(Volume, 'w) backend \<Rightarrow> Volume \<Rightarrow> 'w sys \<Rightarrow> error option \<times> Volume \<times> 'w sys" where
  "UpdateMountStatus be volume s =
     (case execCommand be (findmnt volume) s of
        (r, s') \<Rightarrow>
          (case Err r of
             Some (ExitError code) \<Rightarrow>
               if code = 1 then (None, volume\<lparr>Mounted := False, Target := ''''\<rparr>, s')
               else (Some (CmdError (ExitError code)), volume, s')
           | Some StartError \<Rightarrow> (Some (CmdError StartError), volume, s')
           | None \<Rightarrow> (None, volume\<lparr>Mounted := True, Target := TrimSpace (Stdout r)\<rparr>, s')))"

text \<open>
  \<open>CreateThinVolume\<close> runs \<open>lvcreate\<close> and then \<open>mkfs.xfs\<close>; the argument of
  \<open>mkfs.xfs\<close> is \<open>thinPoolLongName\<close>. The volume group of the record it returns is
  \<open>strings.Split(thinPoolLongName, "/")[1]\<close>, a panic when the name has no \<open>/\<close>.
\<close>

definition lvcreate :: "string \<Rightarrow> string \<Rightarrow> ByteSize \<Rightarrow> argv" where
  "lvcreate volumeName thinPoolLongName sz =
     [''/usr/sbin/lvcreate'', ''-V'', AsString sz, ''-T'', thinPoolLongName, ''-n'', volumeName]"

definition mkfs :: "string \<Rightarrow> argv" where
  "mkfs device = [''/usr/sbin/mkfs.xfs'', device]"

definition CreateThinVolume ::
  "(Volume, 'w) backend \<Rightarrow> string \<Rightarrow> string \<Rightarrow> ByteSize \<Rightarrow> 'w sys \<Rightarrow> (error + Volume) outcome \<times> 'w sys" where
  "CreateThinVolume be volumeName thinPoolLongName sz s =
     (case execCommand be (lvcreate volumeName thinPoolLongName sz) s of
        (r, s1) \<Rightarrow>
          (case Err r of
             Some e \<Rightarrow> (Return (Inl (Errorf ''failed to create volume'' e (Stdout r))), s1)
           | None \<Rightarrow>
               (case execCommand be (mkfs thinPoolLongName) s1 of
                  (r2, s2) \<Rightarrow>
                    (case Err r2 of
                       Some e \<Rightarrow> (Return (Inl (Errorf ''failed to create filesystem'' e (Stdout r2))), s2)
                     | None \<Rightarrow>
                         (case Split thinPoolLongName CHR ''/'' of
                            p0 # vg # ps \<Rightarrow>
                              (Return (Inr \<lparr>VGName = vg, LVName = volumeName, LVAttr = [],
                                            LVSize = sz, Mounted = False, Target = []\<rparr>), s2)
                          | _ \<Rightarrow> (Panic, s2))))))"

definition lvextend :: "ByteSize \<Rightarrow> Volume \<Rightarrow> argv" where
  "lvextend sz volume = [''/usr/sbin/lvextend'', ''--size'', AsString sz, ''--resizefs'', DeviceName volume]"

definition Extend :: "(Volume, 'w) backend \<Rightarrow> Volume \<Rightarrow> ByteSize \<Rightarrow> 'w sys \<Rightarrow> error option \<times> 'w sys" where
  "Extend be volume sz s =
     (case execCommand be (lvextend sz volume) s of
        (r, s') \<Rightarrow>
          (case Err r of
             Some e \<Rightarrow> (Some (Errorf ''failed to extend volume'' e (Stdout r)), s')
           | None \<Rightarrow> (None, s')))"

definition lvremove :: "Volume \<Rightarrow> argv" where
  "lvremove volume = [''/usr/sbin/lvremove'', ''-f'', DeviceName volume]"


section \<open>The thin pool\<close>

definition lvs_report :: "ThinPool \<Rightarrow> argv" where
  "lvs_report tp =
     [''/usr/sbin/lvs'', ''--units'', ''B'', ''--select'',
      ''pool_lv='' @ Name tp @ ''&&vg_name='' @ PoolVGName tp, ''--reportformat'', ''json'']"

text \<open>
  The loop at the end of \<open>refreshVolumes\<close>: \<open>UpdateMountStatus\<close> on every volume in turn,
  its error dropped.
\<close>

fun updateMountStatuses :: "(Volume, 'w) backend \<Rightarrow> Volume list \<Rightarrow> 'w sys \<Rightarrow> Volume list \<times> 'w sys" where
  "updateMountStatuses be [] s = ([], s)"
| "updateMountStatuses be (v # vs) s =
     (case UpdateMountStatus be v s of
        (e, v', s') \<Rightarrow> (case updateMountStatuses be vs s' of (vs', s'') \<Rightarrow> (v' # vs', s'')))"

text \<open>
  \<open>refreshVolumes\<close> keeps the old volumes when \<open>lvs\<close> fails, ends the process when the
  output does not decode, and panics on \<open>result.Report[0]\<close> when the report array is empty.
\<close>

definition refreshVolumes ::
  "(Volume, 'w) backend \<Rightarrow> ThinPool \<Rightarrow> 'w sys \<Rightarrow> error option outcome \<times> ThinPool \<times> 'w sys" where
  "refreshVolumes be tp s =
     (case execCommand be (lvs_report tp) s of
        (r, s1) \<Rightarrow>
          (case Err r of
             Some e \<Rightarrow> (Return (Some (CmdError e)), tp, s1)
           | None \<Rightarrow>
               (case Decoded r of
                  None \<Rightarrow> (Fatal, tp, s1)
                | Some [] \<Rightarrow> (Panic, tp, s1)
                | Some (rep # reps) \<Rightarrow>
                    (case updateMountStatuses be rep s1 of
                       (vs, s2) \<Rightarrow> (Return None, tp\<lparr>Volumes := vs\<rparr>, s2)))))"

definition GetVolume ::
  "(Volume, 'w) backend \<Rightarrow> ThinPool \<Rightarrow> string \<Rightarrow> 'w sys \<Rightarrow> Volume option outcome \<times> ThinPool \<times> 'w sys" where
  "GetVolume be tp volumeName s =
     (case refreshVolumes be tp s of
        (Return e, tp', s') \<Rightarrow> (Return (find (\<lambda>v. LVName v = volumeName) (Volumes tp')), tp', s')
      | (Panic, tp', s') \<Rightarrow> (Panic, tp', s')
      | (Fatal, tp', s') \<Rightarrow> (Fatal, tp', s'))"

definition isThinPool :: "(Volume, 'w) backend \<Rightarrow> string \<Rightarrow> 'w sys \<Rightarrow> bool \<times> 'w sys" where
  "isThinPool be poolName s =
     (case execCommand be [''/usr/sbin/lvs'', poolName, ''--noheadings'', ''-o'', ''lv_attr''] s of
        (r, s') \<Rightarrow>
          (case Err r of
             Some e \<Rightarrow> (False, s')
           | None \<Rightarrow> (HasPrefix (TrimSpace (Stdout r)) ''t'', s')))"

text \<open>
  \<open>NewThinPool\<close> checks \<open>len(parts) >= 3\<close> and then reads \<open>parts[3]\<close> and \<open>parts[2]\<close>:
  with exactly three parts \<open>parts[3]\<close> is out of range and the call panics.
\<close>

definition NewThinPool ::
  "(Volume, 'w) backend \<Rightarrow> string \<Rightarrow> 'w sys \<Rightarrow> (error + ThinPool) outcome \<times> 'w sys" where
  "NewThinPool be longName s =
     (case isThinPool be longName s of
        (success, s1) \<Rightarrow>
          if \<not> success then (Return (Inl (ErrorNew ''thin pool does not exist'')), s1)
          else
            (let parts = Split longName CHR ''/'' in
             if length parts \<ge> 3 then
               (if 3 < length parts then
                  (case refreshVolumes be
                          \<lparr>LongName = longName, Name = parts ! 3, PoolVGName = parts ! 2, Volumes = []\<rparr> s1 of
                     (Return e, tp, s2) \<Rightarrow> (Return (Inr tp), s2)
                   | (Panic, tp, s2) \<Rightarrow> (Panic, s2)
                   | (Fatal, tp, s2) \<Rightarrow> (Fatal, s2))
                else (Panic, s1))
             else (Return (Inl (ErrorNew ''invalid thin pool path'')), s1)))"

definition EnsureVolumeIsPresent ::
  "(Volume, 'w) backend \<Rightarrow> ThinPool \<Rightarrow> string \<Rightarrow> ByteSize \<Rightarrow> 'w sys \<Rightarrow> error option outcome \<times> ThinPool \<times> 'w sys" where
  "EnsureVolumeIsPresent be tp volumeName sz s =
     (case GetVolume be tp volumeName s of
        (Panic, tp1, s1) \<Rightarrow> (Panic, tp1, s1)
      | (Fatal, tp1, s1) \<Rightarrow> (Fatal, tp1, s1)
      | (Return None, tp1, s1) \<Rightarrow>
          (case CreateThinVolume be volumeName (LongName tp1) sz s1 of
             (Panic, s2) \<Rightarrow> (Panic, tp1, s2)
           | (Fatal, s2) \<Rightarrow> (Fatal, tp1, s2)
           | (Return (Inl err), s2) \<Rightarrow> (Return (Some err), tp1, s2)
           | (Return (Inr v), s2) \<Rightarrow>
               (case refreshVolumes be tp1 s2 of
                  (Return e, tp3, s3) \<Rightarrow> (Return None, tp3, s3)
                | (Panic, tp3, s3) \<Rightarrow> (Panic, tp3, s3)
                | (Fatal, tp3, s3) \<Rightarrow> (Fatal, tp3, s3)))
      | (Return (Some volume), tp1, s1) \<Rightarrow>
          if sz \<noteq> 0 \<and> LVSize volume < sz then
            (case Extend be volume sz s1 of
               (Some err, s2) \<Rightarrow> (Return (Some err), tp1, s2)
             | (None, s2) \<Rightarrow>
                 (case refreshVolumes be tp1 s2 of
                    (Return e, tp3, s3) \<Rightarrow> (Return None, tp3, s3)
                  | (Panic, tp3, s3) \<Rightarrow> (Panic, tp3, s3)
                  | (Fatal, tp3, s3) \<Rightarrow> (Fatal, tp3, s3)))
          else (Return None, tp1, s1))"


section \<open>The thin pool of thinvolumes.go\<close>

text \<open>
  \<open>internal/lvm/thinvolumes.go\<close> holds a second copy of the pool, with the volume
  functions as methods of the pool. Its names that are also names of the copy above carry
  the suffix \<open>_tv\<close>. Its \<open>Volume\<close> has no volume group and no mount state, it names the
  tools \<open>lvs\<close>, \<open>lvcreate\<close> and \<open>lvremove\<close> without their directory, and
  \<open>refreshVolumes\<close> returns nothing.
\<close>

record Volume_tv =
  LVName_tv :: string
  LVAttr_tv :: string
  LVSize_tv :: ByteSize
  DataPercent :: string
  MetadataPercent :: string

record ThinPool_tv =
  LongName_tv :: string
  Name_tv :: string
  VGName_tv :: string
  Volumes_tv :: "Volume_tv list"

text \<open>
  \<open>createVolume\<close>, \<open>extendVolume\<close> and \<open>removeVolume\<close> run their command with
  \<open>cmd.CombinedOutput()\<close>, the two queries with \<open>cmd.Output()\<close>. The result of a command
  of this copy has one more field, \<open>Combined\<close>: standard output and standard error in the
  order the command wrote them.
\<close>

record 'v cmd_result_tv = "'v cmd_result" +
  Combined :: string

type_synonym 'w backend_tv = "argv \<Rightarrow> 'w \<Rightarrow> Volume_tv cmd_result_tv \<times> 'w"

definition lvs_report_tv :: "ThinPool_tv \<Rightarrow> argv" where
  "lvs_report_tv tp =
     [''lvs'', ''--units'', ''B'', ''--select'',
      ''pool_lv='' @ Name_tv tp @ ''&&vg_name='' @ VGName_tv tp, ''--reportformat'', ''json'']"

definition refreshVolumes_tv ::
  "'w backend_tv \<Rightarrow> ThinPool_tv \<Rightarrow> 'w sys \<Rightarrow> unit outcome \<times> ThinPool_tv \<times> 'w sys" where
  "refreshVolumes_tv be tp s =
     (case execCommand be (lvs_report_tv tp) s of
        (r, s1) \<Rightarrow>
          (case Err r of
             Some e \<Rightarrow> (Return (), tp, s1)
           | None \<Rightarrow>
               (case Decoded r of
                  None \<Rightarrow> (Fatal, tp, s1)
                | Some [] \<Rightarrow> (Panic, tp, s1)
                | Some (rep # reps) \<Rightarrow> (Return (), tp\<lparr>Volumes_tv := rep\<rparr>, s1))))"

definition findVolume ::
  "'w backend_tv \<Rightarrow> ThinPool_tv \<Rightarrow> string \<Rightarrow> 'w sys \<Rightarrow>
   Volume_tv option outcome \<times> ThinPool_tv \<times> 'w sys" where
  "findVolume be tp volumeName s =
     (case refreshVolumes_tv be tp s of
        (Return u, tp', s') \<Rightarrow> (Return (find (\<lambda>v. LVName_tv v = volumeName) (Volumes_tv tp')), tp', s')
      | (Panic, tp', s') \<Rightarrow> (Panic, tp', s')
      | (Fatal, tp', s') \<Rightarrow> (Fatal, tp', s'))"

text \<open>\<open>createVolume\<close> makes the file system on \<open>tp.LongName\<close> and refreshes the pool itself.\<close>

definition lvcreate_tv :: "ThinPool_tv \<Rightarrow> string \<Rightarrow> ByteSize \<Rightarrow> argv" where
  "lvcreate_tv tp volumeName sz =
     [''lvcreate'', ''-V'', AsString sz, ''-T'', LongName_tv tp, ''-n'', volumeName]"

definition createVolume ::
  "'w backend_tv \<Rightarrow> ThinPool_tv \<Rightarrow> string \<Rightarrow> ByteSize \<Rightarrow> 'w sys \<Rightarrow>
   error option outcome \<times> ThinPool_tv \<times> 'w sys" where
  "createVolume be tp volumeName sz s =
     (case execCommand be (lvcreate_tv tp volumeName sz) s of
        (r, s1) \<Rightarrow>
          (case Err r of
             Some e \<Rightarrow> (Return (Some (Errorf ''failed to create volume'' e (Combined r))), tp, s1)
           | None \<Rightarrow>
               (case execCommand be (mkfs (LongName_tv tp)) s1 of
                  (r2, s2) \<Rightarrow>
                    (case Err r2 of
                       Some e \<Rightarrow>
                         (Return (Some (Errorf ''failed to create filesystem'' e (Combined r2))), tp, s2)
                     | None \<Rightarrow>
                         (case refreshVolumes_tv be tp s2 of
                            (Return u, tp3, s3) \<Rightarrow> (Return None, tp3, s3)
                          | (Panic, tp3, s3) \<Rightarrow> (Panic, tp3, s3)
                          | (Fatal, tp3, s3) \<Rightarrow> (Fatal, tp3, s3))))))"

text \<open>
  \<open>extendVolume\<close> gives \<open>lvextend\<close> the name of the pool, \<open>tp.LongName\<close>; the parameter
  \<open>volumeName\<close> is not used, and the pool is not refreshed.
\<close>

definition lvextend_tv :: "ThinPool_tv \<Rightarrow> ByteSize \<Rightarrow> argv" where
  "lvextend_tv tp sz = [''/usr/sbin/lvextend'', ''--size'', AsString sz, ''--resizefs'', LongName_tv tp]"

definition extendVolume ::
  "'w backend_tv \<Rightarrow> ThinPool_tv \<Rightarrow> string \<Rightarrow> ByteSize \<Rightarrow> 'w sys \<Rightarrow> error option \<times> 'w sys" where
  "extendVolume be tp volumeName sz s =
     (case execCommand be (lvextend_tv tp sz) s of
        (r, s') \<Rightarrow>
          (case Err r of
             Some e \<Rightarrow> (Some (Errorf ''failed to extend volume'' e (Combined r)), s')
           | None \<Rightarrow> (None, s')))"

definition lvremove_tv :: "ThinPool_tv \<Rightarrow> string \<Rightarrow> argv" where
  "lvremove_tv tp volumeName = [''lvremove'', ''-f'', ''/dev/'' @ VGName_tv tp @ ''/'' @ volumeName]"

definition removeVolume ::
  "'w backend_tv \<Rightarrow> ThinPool_tv \<Rightarrow> string \<Rightarrow> 'w sys \<Rightarrow>
   error option outcome \<times> ThinPool_tv \<times> 'w sys" where
  "removeVolume be tp volumeName s =
     (case execCommand be (lvremove_tv tp volumeName) s of
        (r, s1) \<Rightarrow>
          (case Err r of
             Some e \<Rightarrow> (Return (Some (Errorf ''failed to remove volume'' e (Combined r))), tp, s1)
           | None \<Rightarrow>
               (case refreshVolumes_tv be tp s1 of
                  (Return u, tp3, s3) \<Rightarrow> (Return None, tp3, s3)
                | (Panic, tp3, s3) \<Rightarrow> (Panic, tp3, s3)
                | (Fatal, tp3, s3) \<Rightarrow> (Fatal, tp3, s3))))"

definition EnsureVolumeIsPresent_tv ::
  "'w backend_tv \<Rightarrow> ThinPool_tv \<Rightarrow> string \<Rightarrow> ByteSize \<Rightarrow> 'w sys \<Rightarrow>
   error option outcome \<times> ThinPool_tv \<times> 'w sys" where
  "EnsureVolumeIsPresent_tv be tp volumeName sz s =
     (case findVolume be tp volumeName s of
        (Panic, tp1, s1) \<Rightarrow> (Panic, tp1, s1)
      | (Fatal, tp1, s1) \<Rightarrow> (Fatal, tp1, s1)
      | (Return None, tp1, s1) \<Rightarrow> createVolume be tp1 volumeName sz s1
      | (Return (Some volume), tp1, s1) \<Rightarrow>
          if sz \<noteq> 0 \<and> LVSize_tv volume < sz then
            (case extendVolume be tp1 volumeName sz s1 of (err, s2) \<Rightarrow> (Return err, tp1, s2))
          else (Return None, tp1, s1))"

definition EnsureVolumeIsAbsent_tv ::
  "'w backend_tv \<Rightarrow> ThinPool_tv \<Rightarrow> string \<Rightarrow> 'w sys \<Rightarrow>
   error option outcome \<times> ThinPool_tv \<times> 'w sys" where
  "EnsureVolumeIsAbsent_tv be tp volumeName s =
     (case findVolume be tp volumeName s of
        (Panic, tp1, s1) \<Rightarrow> (Panic, tp1, s1)
      | (Fatal, tp1, s1) \<Rightarrow> (Fatal, tp1, s1)
      | (Return None, tp1, s1) \<Rightarrow> (Return None, tp1, s1)
      | (Return (Some volume), tp1, s1) \<Rightarrow> removeVolume be tp1 volumeName s1)"

definition isThinPool_tv :: "'w backend_tv \<Rightarrow> string \<Rightarrow> 'w sys \<Rightarrow> bool \<times> 'w sys" where
  "isThinPool_tv be poolName s =
     (case execCommand be [''lvs'', poolName, ''--noheadings'', ''-o'', ''lv_attr''] s of
        (r, s') \<Rightarrow>
          (case Err r of
             Some e \<Rightarrow> (False, s')
           | None \<Rightarrow> (HasPrefix (TrimSpace (Stdout r)) ''t'', s')))"

definition NewThinPool_tv ::
  "'w backend_tv \<Rightarrow> string \<Rightarrow> 'w sys \<Rightarrow> (error + ThinPool_tv) outcome \<times> 'w sys" where
  "NewThinPool_tv be longName s =
     (case isThinPool_tv be longName s of
        (success, s1) \<Rightarrow>
          if \<not> success then (Return (Inl (ErrorNew ''thin pool does not exist'')), s1)
          else
            (let parts = Split longName CHR ''/'' in
             if length parts \<ge> 3 then
               (if 3 < length parts then
                  (case refreshVolumes_tv be
                          \<lparr>LongName_tv = longName, Name_tv = parts ! 3, VGName_tv = parts ! 2,
                           Volumes_tv = []\<rparr> s1 of
                     (Return u, tp, s2) \<Rightarrow> (Return (Inr tp), s2)
                   | (Panic, tp, s2) \<Rightarrow> (Panic, s2)
                   | (Fatal, tp, s2) \<Rightarrow> (Fatal, s2))
                else (Panic, s1))
             else (Return (Inl (ErrorNew ''invalid thin pool path'')), s1)))"

section \<open>The test double of the thin pool test\<close>

text \<open>
  \<open>ByteSize.UnmarshalJSON\<close>: the quotes and a final \<open>B\<close> are removed and the rest is
  parsed as a 64-bit decimal. \<open>Trim\<close> is \<open>strings.Trim\<close> for a cutset of one byte.
\<close>

definition Trim :: "string \<Rightarrow> char \<Rightarrow> string" where
  "Trim s c = rev (dropWhile (\<lambda>x. x = c) (rev (dropWhile (\<lambda>x. x = c) s)))"

definition UnmarshalJSON :: "string \<Rightarrow> ByteSize option" where
  "UnmarshalJSON b = ParseInt (TrimSuffix (Trim b (CHR 0x22)) ''B'')"

text \<open>
  The test replaces \<open>execCommand\<close> by \<open>fakeExecCommand\<close>, which keeps four variables and
  starts \<open>TestHelperProcess\<close> to produce the output and the exit code.
\<close>

record fake_state =
  volumeExists :: bool
  volumeFormatted :: bool
  volumeSize :: int
  volumeMounted :: bool

definition succeeded :: "string \<Rightarrow> 'v cmd_result" where
  "succeeded out = \<lparr>Stdout = out, Decoded = None, Err = None\<rparr>"

definition defaultCommandResult :: "'v cmd_result" where
  "defaultCommandResult = \<lparr>Stdout = [], Decoded = None, Err = Some (ExitError 1)\<rparr>"

text \<open>
  \<open>TestHelperProcess\<close> sees the argument vector and the three environment variables. The
  text of the report it prints for \<open>lvs\<close> is left out: \<open>Decoded\<close> holds its rows, the size
  read by \<open>UnmarshalJSON\<close> from the quoted value of \<open>GO_HELPER_PROCESS_VOLUME_SIZE\<close>.
  The helper first tests
  \<open>argv[0] == "/usr/sbin/lvextend" && argv[1] == "--size" && argv[3] == "--resizefs" && argv[4] == "/dev/vg0/test-volume"\<close>,
  from left to right: \<open>lvextend_mocked\<close> is the value of that test, and \<open>None\<close> where it
  reads past the end of the vector. The helper then panics and the process exits with
  code 2; what the Go runtime prints for the panic is not in the repository and is left out
  of \<open>panicked\<close>.
\<close>

definition panicked :: "'v cmd_result" where
  "panicked = \<lparr>Stdout = [], Decoded = None, Err = Some (ExitError 2)\<rparr>"

fun lvextend_mocked :: "argv \<Rightarrow> bool option" where
  "lvextend_mocked (a0 # a1 # a2 # a3 # a4 # rest) =
     Some (a0 = ''/usr/sbin/lvextend'' \<and> a1 = ''--size'' \<and> a3 = ''--resizefs'' \<and>
           a4 = ''/dev/vg0/test-volume'')"
| "lvextend_mocked [a0, a1, a2, a3] =
     (if a0 = ''/usr/sbin/lvextend'' \<and> a1 = ''--size'' \<and> a3 = ''--resizefs'' then None else Some False)"
| "lvextend_mocked [a0, a1, a2] =
     (if a0 = ''/usr/sbin/lvextend'' \<and> a1 = ''--size'' then None else Some False)"
| "lvextend_mocked [a0, a1] =
     (if a0 = ''/usr/sbin/lvextend'' \<and> a1 = ''--size'' then None else Some False)"
| "lvextend_mocked [a0] = (if a0 = ''/usr/sbin/lvextend'' then None else Some False)"
| "lvextend_mocked [] = None"

definition TestHelperProcess :: "argv \<Rightarrow> bool \<Rightarrow> string \<Rightarrow> bool \<Rightarrow> Volume cmd_result" where
  "TestHelperProcess args present sizeEnv mounted =
     (if lvextend_mocked args = None then panicked
      else if lvextend_mocked args = Some True
      then succeeded []
      else if args = [''/usr/sbin/lvs'', ''/dev/vg0/existing_thin_pool'', ''--noheadings'', ''-o'', ''lv_attr'']
      then succeeded (''  twi-aotz--'' @ [CHR 0x0A])
      else if args = [''/usr/sbin/lvcreate'', ''-V'', ''1073741824B'', ''-T'',
                      ''/dev/vg0/existing_thin_pool'', ''-n'', ''test-volume'']
      then succeeded (''Volume successfully created.'' @ [CHR 0x0A])
      else if args = [''/usr/sbin/lvremove'', ''-f'', ''/dev/vg0/test-volume'']
      then succeeded (''Volume successfully removed.'' @ [CHR 0x0A])
      else if args = [''/usr/sbin/mkfs.xfs'', ''/dev/vg0/existing_thin_pool'']
      then succeeded (''Filesystem successfully formatted.'' @ [CHR 0x0A])
      else if args = [''/usr/sbin/lvcreate'', ''--snapshot'', ''--name'', ''test-snapshot'', ''-L'',
                      ''1048576B'', ''/dev/vg0/test-volume'']
      then succeeded (''Snapshot successfully created.'' @ [CHR 0x0A])
      else if mounted \<and> args = [''/usr/bin/findmnt'', ''-n'', ''-o'', ''TARGET'', ''--source'',
                                  ''/dev/vg0/test-volume'']
      then succeeded ([CHR 0x0A] @ ''/mnt/test'' @ [CHR 0x0A])
      else if mounted \<and> args = [''/usr/bin/umount'', ''/dev/vg0/test-volume'']
      then succeeded []
      else if \<not> mounted \<and> args = [''/usr/bin/mount'', ''/dev/vg0/test-volume'', ''/mnt/test'']
      then succeeded []
      else if args = [''/usr/sbin/lvs'', ''--units'', ''B'', ''--select'',
                      ''pool_lv=existing_thin_pool&&vg_name=vg0'', ''--reportformat'', ''json'']
      then (if present
            then (case UnmarshalJSON ([CHR 0x22] @ sizeEnv @ [CHR 0x22]) of
                    None \<Rightarrow> \<lparr>Stdout = [], Decoded = None, Err = None\<rparr>
                  | Some n \<Rightarrow>
                      \<lparr>Stdout = [],
                       Decoded = Some [[\<lparr>VGName = ''vg0'', LVName = ''test-volume'',
                                         LVAttr = ''Vwi-a-tz--'', LVSize = n,
                                         Mounted = False, Target = []\<rparr>]],
                       Err = None\<rparr>)
            else \<lparr>Stdout = [], Decoded = Some [[]], Err = None\<rparr>)
      else defaultCommandResult)"

text \<open>
  \<open>fakeExecCommand\<close> updates its variables before it starts the helper, and the mount flag
  after. Where the Go function panics (removing or extending a volume that does not exist,
  creating one that exists, formatting twice, a size that does not parse) the model reports
  a command that did not start and changes nothing.
\<close>

definition refused :: "'v cmd_result" where
  "refused = \<lparr>Stdout = [], Decoded = None, Err = Some StartError\<rparr>"

definition helper :: "argv \<Rightarrow> fake_state \<Rightarrow> Volume cmd_result \<times> fake_state" where
  "helper args w =
     (TestHelperProcess args (volumeExists w) (FormatInt (volumeSize w) @ ''B'') (volumeMounted w),
      if hd args = ''/usr/bin/mount'' then w\<lparr>volumeMounted := True\<rparr>
      else if hd args = ''/usr/bin/umount'' then w\<lparr>volumeMounted := False\<rparr>
      else w)"

definition fakeExecCommand :: "(Volume, fake_state) backend" where
  "fakeExecCommand args w =
     (case args of
        [] \<Rightarrow> (refused, w)
      | command # rest \<Rightarrow>
          if command = ''/usr/sbin/lvremove'' then
            (if volumeExists w then helper args (w\<lparr>volumeExists := False, volumeFormatted := False\<rparr>)
             else (refused, w))
          else if command = ''/usr/sbin/lvcreate'' then
            (if \<not> volumeExists w then helper args (w\<lparr>volumeExists := True, volumeFormatted := False\<rparr>)
             else (refused, w))
          else if command = ''/usr/sbin/mkfs.xfs'' then
            (if \<not> volumeFormatted w \<and> volumeExists w then helper args (w\<lparr>volumeFormatted := True\<rparr>)
             else (refused, w))
          else if command = ''/usr/sbin/lvextend'' then
            (if volumeExists w \<and> 2 \<le> length rest then
               (case ParseInt (TrimSuffix (rest ! 1) ''B'') of
                  None \<Rightarrow> (refused, w)
                | Some n \<Rightarrow> helper args (w\<lparr>volumeSize := n\<rparr>))
             else (refused, w))
          else helper args w)"

text \<open>The variables as the test file initialises them, and the pool the test builds.\<close>

definition fake_init :: fake_state where
  "fake_init = \<lparr>volumeExists = True, volumeFormatted = False, volumeSize = 1024 * 1024 * 1024,
                volumeMounted = False\<rparr>"

definition test_pool :: ThinPool where
  "test_pool = \<lparr>LongName = ''/dev/vg0/existing_thin_pool'', Name = ''existing_thin_pool'',
                PoolVGName = ''vg0'', Volumes = []\<rparr>"

definition test_volume :: Volume where
  \<comment> \<open>\<open>test_volume_fixture\<close> of the test\<close>
  "test_volume = \<lparr>VGName = ''vg0'', LVName = ''test-volume'', LVAttr = ''Vwi-a-tz--'',
                  LVSize = 1024 * 1024 * 1024, Mounted = False, Target = []\<rparr>"

text \<open>The commands that change the backend, and the two that only read it.\<close>

definition is_create :: "argv \<Rightarrow> bool" where
  "is_create args = (args \<noteq> [] \<and> hd args = ''/usr/sbin/lvcreate'')"

definition is_format :: "argv \<Rightarrow> bool" where
  "is_format args = (args \<noteq> [] \<and> hd args = ''/usr/sbin/mkfs.xfs'')"

definition is_extend :: "argv \<Rightarrow> bool" where
  "is_extend args = (args \<noteq> [] \<and> hd args = ''/usr/sbin/lvextend'')"

definition is_remove :: "argv \<Rightarrow> bool" where
  "is_remove args = (args \<noteq> [] \<and> hd args = ''/usr/sbin/lvremove'')"

definition is_query :: "argv \<Rightarrow> bool" where
  "is_query args = (args \<noteq> [] \<and> (hd args = ''/usr/sbin/lvs'' \<or> hd args = ''/usr/bin/findmnt''))"

section \<open>The test double of the thinvolumes test\<close>

text \<open>
  The test of \<open>thinvolumes.go\<close> has its own \<open>fakeExecCommand\<close> and \<open>TestHelperProcess\<close>:
  two variables, the tools without their directory, a report of \<open>lvs\<close> that always gives
  the volume 1073741824 bytes, and no entry for \<open>lvextend\<close>.
\<close>

record fake_state_tv =
  volumeExists_tv :: bool
  volumeFormatted_tv :: bool

text \<open>
  The helper writes the standard error of its entry and then the standard output, and exits
  with the code of the entry: \<open>mockCommandResult\<close> gives the result the caller sees. The
  text of the report of \<open>lvs\<close> is left out of \<open>Stdout\<close> and \<open>Combined\<close>; \<open>Decoded\<close> holds
  its rows.
\<close>

definition mockCommandResult :: "string \<Rightarrow> string \<Rightarrow> int \<Rightarrow> Volume_tv cmd_result_tv" where
  "mockCommandResult out err exitCode =
     \<lparr>Stdout = out, Decoded = None,
      Err = (if exitCode = 0 then None else Some (ExitError exitCode)),
      Combined = err @ out\<rparr>"

definition warning :: string where
  "warning = ''A warning was given, but it doesn'' @ [CHR 0x27] @ ''t matter.'' @ [CHR 0x0A]"

definition leaked :: string where
  "leaked =
     ''File descriptor 34 (/dev/ptmx) leaked on lvs invocation. Parent PID 168001: -bash'' @
     [CHR 0x0A] @
     ''File descriptor 40 (/dev/ptmx) leaked on lvs invocation. Parent PID 168001: -bash''"

definition defaultCommandResult_tv :: "Volume_tv cmd_result_tv" where
  "defaultCommandResult_tv = mockCommandResult [] ''Command not recognized.'' 1"

definition TestHelperProcess_tv :: "argv \<Rightarrow> bool \<Rightarrow> Volume_tv cmd_result_tv" where
  "TestHelperProcess_tv args present =
     (if args = [''lvs'', ''/dev/vg0/existing_thin_pool'', ''--noheadings'', ''-o'', ''lv_attr'']
      then mockCommandResult (''  twi-aotz--'' @ [CHR 0x0A]) warning 0
      else if args = [''lvcreate'', ''-V'', ''1073741824B'', ''-T'', ''/dev/vg0/existing_thin_pool'',
                      ''-n'', ''test-volume'']
      then mockCommandResult (''Volume successfully created.'' @ [CHR 0x0A]) warning 0
      else if args = [''lvremove'', ''-f'', ''/dev/vg0/test-volume'']
      then mockCommandResult (''Volume successfully removed.'' @ [CHR 0x0A]) warning 0
      else if args = [''/usr/sbin/mkfs.xfs'', ''/dev/vg0/existing_thin_pool'']
      then mockCommandResult (''Filesystem successfully formatted.'' @ [CHR 0x0A]) warning 0
      else if args = [''lvs'', ''--units'', ''B'', ''--select'',
                      ''pool_lv=existing_thin_pool&&vg_name=vg0'', ''--reportformat'', ''json'']
      then (if present
            then (case UnmarshalJSON ([CHR 0x22] @ ''1073741824B'' @ [CHR 0x22]) of
                    None \<Rightarrow> \<lparr>Stdout = [], Decoded = None, Err = None, Combined = warning\<rparr>
                  | Some n \<Rightarrow>
                      \<lparr>Stdout = [],
                       Decoded = Some [[\<lparr>LVName_tv = ''test-volume'', LVAttr_tv = ''Vwi-a-tz--'',
                                         LVSize_tv = n, DataPercent = ''0.00'',
                                         MetadataPercent = []\<rparr>]],
                       Err = None, Combined = warning\<rparr>)
            else \<lparr>Stdout = [], Decoded = Some [[]], Err = None, Combined = leaked\<rparr>)
      else defaultCommandResult_tv)"

text \<open>
  Where this \<open>fakeExecCommand\<close> panics (removing a volume that does not exist, creating one
  that exists, formatting twice or formatting a volume that does not exist) the model
  reports a command that did not start and changes nothing.
\<close>

definition refused_tv :: "Volume_tv cmd_result_tv" where
  "refused_tv = \<lparr>Stdout = [], Decoded = None, Err = Some StartError, Combined = []\<rparr>"

definition fakeExecCommand_tv :: "fake_state_tv backend_tv" where
  "fakeExecCommand_tv args w =
     (case args of
        [] \<Rightarrow> (refused_tv, w)
      | command # rest \<Rightarrow>
          if command = ''lvremove'' then
            (if volumeExists_tv w
             then (TestHelperProcess_tv args False, w\<lparr>volumeExists_tv := False, volumeFormatted_tv := False\<rparr>)
             else (refused_tv, w))
          else if command = ''lvcreate'' then
            (if \<not> volumeExists_tv w
             then (TestHelperProcess_tv args True, w\<lparr>volumeExists_tv := True, volumeFormatted_tv := False\<rparr>)
             else (refused_tv, w))
          else if command = ''/usr/sbin/mkfs.xfs'' then
            (if \<not> volumeFormatted_tv w \<and> volumeExists_tv w
             then (TestHelperProcess_tv args True, w\<lparr>volumeFormatted_tv := True\<rparr>)
             else (refused_tv, w))
          else (TestHelperProcess_tv args (volumeExists_tv w), w))"

definition fake_init_tv :: fake_state_tv where
  "fake_init_tv = \<lparr>volumeExists_tv = True, volumeFormatted_tv = False\<rparr>"

definition test_pool_tv :: ThinPool_tv where
  "test_pool_tv = \<lparr>LongName_tv = ''/dev/vg0/existing_thin_pool'', Name_tv = ''existing_thin_pool'',
                   VGName_tv = ''vg0'', Volumes_tv = []\<rparr>"

definition test_volume_tv :: Volume_tv where
  \<comment> \<open>\<open>test_volume_fixture\<close> of that test\<close>
  "test_volume_tv = \<lparr>LVName_tv = ''test-volume'', LVAttr_tv = ''Vwi-a-tz--'',
                     LVSize_tv = 1024 * 1024 * 1024, DataPercent = ''0.00'', MetadataPercent = []\<rparr>"

text \<open>The commands of \<open>thinvolumes.go\<close> that change the backend, and its query.\<close>

definition is_create_tv :: "argv \<Rightarrow> bool" where
  "is_create_tv args = (args \<noteq> [] \<and> hd args = ''lvcreate'')"

definition is_remove_tv :: "argv \<Rightarrow> bool" where
  "is_remove_tv args = (args \<noteq> [] \<and> hd args = ''lvremove'')"

definition is_query_tv :: "argv \<Rightarrow> bool" where
  "is_query_tv args = (args \<noteq> [] \<and> hd args = ''lvs'')"

section \<open>Configuration\<close>

type_synonym Secret = "string \<rightharpoonup> string"

record VolumeInformation =
  StagingPath :: string
  ThinPoolName :: string

record Destination =
  Environment :: "string \<rightharpoonup> string"
  Repository :: string

record Config =
  VolumeInfo :: VolumeInformation
  ResticRepo :: "Destination list"

text \<open>
  The body of the inner loop of \<open>LoadConfig\<close> for one key of a destination's environment:
  a value that starts with \<open>secret:\<close> and whose rest is a key of the secret file is
  replaced by the secret.
\<close>

definition substitute :: "Secret \<Rightarrow> string \<Rightarrow> (string \<rightharpoonup> string) \<Rightarrow> (string \<rightharpoonup> string)" where
  "substitute secret key env =
     (case env key of
        None \<Rightarrow> env
      | Some val \<Rightarrow>
          if HasPrefix val ''secret:'' then
            (case secret (drop 7 val) of
               Some secretVal \<Rightarrow> env(key \<mapsto> secretVal)
             | None \<Rightarrow> env)
          else env)"

text \<open>
  Go ranges over a map in an order of its own choosing: \<open>order\<close> gives the keys of a map
  in the order of that run. Reading the files and decoding TOML are outside the repository:
  \<open>ReadFile\<close> is \<open>os.ReadFile\<close>, \<open>DecodeSecret\<close> and \<open>DecodeConfig\<close> are \<open>toml.Decode\<close>
  into the two structures, with \<open>'e\<close> the errors of both. A failed \<open>toml.Decode\<close> of the
  configuration returns what it had filled in so far, and so does \<open>LoadConfig\<close>.
\<close>

definition zero_config :: Config where
  "zero_config = \<lparr>VolumeInfo = \<lparr>StagingPath = [], ThinPoolName = []\<rparr>, ResticRepo = []\<rparr>"

definition LoadConfig ::
  "(string \<Rightarrow> 'e + string) \<Rightarrow> (string \<Rightarrow> 'e + Secret) \<Rightarrow> (string \<Rightarrow> Config \<times> 'e option) \<Rightarrow>
   ((string \<rightharpoonup> string) \<Rightarrow> string list) \<Rightarrow> string \<Rightarrow> string \<Rightarrow> Config \<times> 'e option" where
  "LoadConfig ReadFile DecodeSecret DecodeConfig order configFilePath secretFilePath =
     (case ReadFile secretFilePath of
        Inl err \<Rightarrow> (zero_config, Some err)
      | Inr secretData \<Rightarrow>
          (case DecodeSecret secretData of
             Inl err \<Rightarrow> (zero_config, Some err)
           | Inr secret \<Rightarrow>
               (case ReadFile configFilePath of
                  Inl err \<Rightarrow> (zero_config, Some err)
                | Inr configData \<Rightarrow>
                    (case DecodeConfig configData of
                       (config, Some err) \<Rightarrow> (config, Some err)
                     | (config, None) \<Rightarrow>
                         (config\<lparr>ResticRepo :=
                            map (\<lambda>repo. repo\<lparr>Environment :=
                                   fold (substitute secret) (order (Environment repo)) (Environment repo)\<rparr>)
                              (ResticRepo config)\<rparr>,
                          None)))))"

section \<open>The node service\<close>

datatype code = InvalidArgument | Unimplemented

datatype status = Status code string

record Request =
  VolumeId :: string
  TargetPath :: string

text \<open>
  Of the driver only the configuration matters here; it is a pointer, \<open>None\<close> when nil.
  \<open>NodePublishVolume\<close> checks the two fields, logs \<open>d.config.ResticRepo[0].Repository\<close>,
  a panic when there is no configuration or no destination, and returns an empty response.
  It calls no function of the volume package.
\<close>

record Driver =
  name :: string
  hostID :: string
  config :: "Config option"

definition NodePublishVolume :: "Driver \<Rightarrow> Request \<Rightarrow> 'w sys \<Rightarrow> (status + unit) outcome \<times> 'w sys" where
  "NodePublishVolume d req s =
     (if VolumeId req = [] then
        (Return (Inl (Status InvalidArgument ''NodePublishVolume Volume ID must be provided'')), s)
      else if TargetPath req = [] then
        (Return (Inl (Status InvalidArgument ''NodePublishVolume Target Path must be provided'')), s)
      else
        (case config d of
           None \<Rightarrow> (Panic, s)
         | Some c \<Rightarrow> (case ResticRepo c of [] \<Rightarrow> (Panic, s) | repo # repos \<Rightarrow> (Return (Inr ()), s))))"

definition NodeUnpublishVolume :: "Driver \<Rightarrow> Request \<Rightarrow> 'w sys \<Rightarrow> (status + unit) outcome \<times> 'w sys" where
  "NodeUnpublishVolume d req s =
     (if VolumeId req = [] then
        (Return (Inl (Status InvalidArgument ''NodeUnpublishVolume Volume ID must be provided'')), s)
      else if TargetPath req = [] then
        (Return (Inl (Status InvalidArgument ''NodeUnpublishVolume Target Path must be provided'')), s)
      else (Return (Inr ()), s))"

fun is_InvalidArgument :: "(status + unit) outcome \<Rightarrow> bool" where
  "is_InvalidArgument (Return (Inl (Status InvalidArgument msg))) = True"
| "is_InvalidArgument r = False"

definition test_driver :: Driver where
  "test_driver =
     \<lparr>name = ''restic.csi.nodeto.com'', hostID = ''node-1'',
      config = Some \<lparr>VolumeInfo = \<lparr>StagingPath = ''/mnt/volumes'',
                                   ThinPoolName = ''/dev/vg0/existing_thin_pool''\<rparr>,
                     ResticRepo = [\<lparr>Environment = Map.empty, Repository = ''/srv/restic''\<rparr>]\<rparr>\<rparr>"

section \<open>Selecting a snapshot\<close>

text \<open>
  Modelled from the spec: \<open>SelectSnapshot\<close> (section 4.2) and the repository query
  \<open>findNearest\<close> (section 6). No source file holds a snapshot selector or any call of a
  backup tool. The destinations are asked in configuration order; a later candidate
  replaces the best one so far only when it is strictly nearer to the target time. Times
  are integers, the unit is left open.
\<close>

record SnapshotDescriptor =
  repository :: string
  timestamp :: int
  handle :: string

datatype found = Snapshot SnapshotDescriptor | NoSnapshot | QueryFailed

definition distance :: "int \<Rightarrow> SnapshotDescriptor \<Rightarrow> int" where
  "distance targetTime snap = \<bar>timestamp snap - targetTime\<bar>"

text \<open>
  Modelled from the spec: the pass of section 4.2 over the candidates, in configuration
  order; the source has no such loop.
\<close>

fun nearest ::
  "(Destination \<Rightarrow> int \<Rightarrow> found) \<Rightarrow> int \<Rightarrow> Destination list \<Rightarrow> SnapshotDescriptor option \<Rightarrow>
   SnapshotDescriptor option" where
  "nearest findNearest targetTime [] best = best"
| "nearest findNearest targetTime (d # ds) best =
     nearest findNearest targetTime ds
       (case findNearest d targetTime of
          Snapshot snap \<Rightarrow>
            (case best of
               None \<Rightarrow> Some snap
             | Some b \<Rightarrow> if distance targetTime snap < distance targetTime b then Some snap else Some b)
        | NoSnapshot \<Rightarrow> best
        | QueryFailed \<Rightarrow> best)"

text \<open>
  Modelled from the spec: \<open>SelectSnapshot(destinations, targetTime)\<close> of section 4.2, which
  no source file implements; \<open>None\<close> is its result "none".
\<close>

definition SelectSnapshot ::
  "(Destination \<Rightarrow> int \<Rightarrow> found) \<Rightarrow> Destination list \<Rightarrow> int \<Rightarrow> SnapshotDescriptor option" where
  "SelectSnapshot findNearest destinations targetTime = nearest findNearest targetTime destinations None"

section \<open>Examples\<close>

definition example_config :: Config where
  "example_config =
     \<lparr>VolumeInfo = \<lparr>StagingPath = ''/mnt/volumes'', ThinPoolName = ''/dev/vg0/existing_thin_pool''\<rparr>,
      ResticRepo = [\<lparr>Environment = [''RESTIC_PASSWORD'' \<mapsto> ''secret:pw'', ''AWS_REGION'' \<mapsto> ''eu''],
                     Repository = ''/srv/restic''\<rparr>]\<rparr>"

text \<open>
  The example of the spec: snapshots 50 before, 5 before and 40 after the target time, and
  a fourth destination 5 after it; \<open>x\<close> has no snapshot and the query of \<open>y\<close> fails.
\<close>

definition example_destinations :: "Destination list" where
  "example_destinations =
     map (\<lambda>r. \<lparr>Environment = Map.empty, Repository = r\<rparr>) [''a'', ''b'', ''c'', ''d'']"

definition example_findNearest :: "Destination \<Rightarrow> int \<Rightarrow> found" where
  "example_findNearest d t =
     (if Repository d = ''a'' then Snapshot \<lparr>repository = ''a'', timestamp = t - 50, handle = ''snapshot''\<rparr>
      else if Repository d = ''b'' then Snapshot \<lparr>repository = ''b'', timestamp = t - 5, handle = ''snapshot''\<rparr>
      else if Repository d = ''c'' then Snapshot \<lparr>repository = ''c'', timestamp = t + 40, handle = ''snapshot''\<rparr>
      else if Repository d = ''d'' then Snapshot \<lparr>repository = ''d'', timestamp = t + 5, handle = ''snapshot''\<rparr>
      else if Repository d = ''x'' then NoSnapshot
      else QueryFailed)"

text \<open>
  A backend on which every command succeeds and \<open>lvs\<close> reports \<open>test-volume\<close> at
  1073741824 bytes whatever was run before: a volume that a command on another device
  leaves as it is.
\<close>

definition unchanged_volume :: "unit backend_tv" where
  "unchanged_volume args w =
     (if args = lvs_report_tv test_pool_tv
      then \<lparr>Stdout = [], Decoded = Some [[test_volume_tv]], Err = None, Combined = []\<rparr>
      else \<lparr>Stdout = [], Decoded = None, Err = None, Combined = []\<rparr>,
      w)"

section \<open>What the backend is expected to do\<close>

text \<open>
  The two queries, \<open>lvs\<close> and \<open>findmnt\<close>, leave a well-behaved backend as it is.
\<close>

definition read_only :: "(Volume, 'w) backend \<Rightarrow> bool" where
  "read_only be = (\<forall>args w. is_query args \<longrightarrow> snd (be args w) = w)"

text \<open>
  In state \<open>w\<close> the report of \<open>lvs\<close> decodes, and the first row of that name has the
  size \<open>sz\<close>; or it decodes and has no row of that name.
\<close>

definition reports :: "(Volume, 'w) backend \<Rightarrow> ThinPool \<Rightarrow> 'w \<Rightarrow> string \<Rightarrow> ByteSize \<Rightarrow> bool" where
  "reports be tp w volumeName sz =
     (case be (lvs_report tp) w of
        (r, w') \<Rightarrow>
          Err r = None \<and>
          (case Decoded r of
             None \<Rightarrow> False
           | Some [] \<Rightarrow> False
           | Some (rep # reps) \<Rightarrow>
               (case find (\<lambda>v. LVName v = volumeName) rep of
                  None \<Rightarrow> False
                | Some v \<Rightarrow> LVSize v = sz)))"


text \<open>The same for the backend of \<open>thinvolumes.go\<close>, whose only query is \<open>lvs\<close>.\<close>

definition read_only_tv :: "'w backend_tv \<Rightarrow> bool" where
  "read_only_tv be = (\<forall>args w. is_query_tv args \<longrightarrow> snd (be args w) = w)"

definition reports_none_tv :: "'w backend_tv \<Rightarrow> ThinPool_tv \<Rightarrow> 'w \<Rightarrow> string \<Rightarrow> bool" where
  "reports_none_tv be tp w volumeName =
     (case be (lvs_report_tv tp) w of
        (r, w') \<Rightarrow>
          Err r = None \<and>
          (case Decoded r of
             None \<Rightarrow> False
           | Some [] \<Rightarrow> False
           | Some (rep # reps) \<Rightarrow> find (\<lambda>v. LVName_tv v = volumeName) rep = None))"

text \<open>The commands a call has run: what it added to the log \<open>l\<close> it started with.\<close>

definition issued :: "argv list \<Rightarrow> 'w sys \<Rightarrow> argv list" where
  "issued l s = drop (length l) (snd s)"

section \<open>Properties\<close>

subsection \<open>The mount-state query\<close>

text \<open>
  C8. \<open>UpdateMountStatus\<close> tells "not mounted" from "query failed". With \<open>r\<close> the result
  of \<open>findmnt\<close> on the volume's device: exit code 1 gives success with \<open>Mounted\<close> false
  and an empty \<open>Target\<close>; a successful query gives success with \<open>Mounted\<close> true and
  \<open>Target\<close> the reported path, trimmed; every other failure is returned as the error and
  leaves \<open>Mounted\<close> and \<open>Target\<close> as they were.
\<close>

theorem UpdateMountStatus_distinguishes:
  assumes "be (findmnt volume) w = (r, w')"
  shows "(Err r = Some (ExitError 1) \<longrightarrow>
            UpdateMountStatus be volume (w, l) =
              (None, volume\<lparr>Mounted := False, Target := []\<rparr>, (w', l @ [findmnt volume]))) \<and>
         (Err r = None \<longrightarrow>
            UpdateMountStatus be volume (w, l) =
              (None, volume\<lparr>Mounted := True, Target := TrimSpace (Stdout r)\<rparr>,
               (w', l @ [findmnt volume]))) \<and>
         (\<forall>e. Err r = Some e \<and> e \<noteq> ExitError 1 \<longrightarrow>
            UpdateMountStatus be volume (w, l) =
              (Some (CmdError e), volume, (w', l @ [findmnt volume])))"
  using assms
  by (auto simp: UpdateMountStatus_def execCommand_def split: option.splits exec_error.splits)

lemma fake_findmnt_unmounted:
  "fakeExecCommand (findmnt test_volume) fake_init = (defaultCommandResult, fake_init)"
  by code_simp

lemma fake_findmnt_mounted:
  "fakeExecCommand (findmnt test_volume) (fake_init\<lparr>volumeMounted := True\<rparr>) =
     (succeeded ([CHR 0x0A] @ ''/mnt/test'' @ [CHR 0x0A]), fake_init\<lparr>volumeMounted := True\<rparr>)"
  by code_simp

lemma TrimSpace_mnt_test: "TrimSpace ([CHR 0x0A] @ ''/mnt/test'' @ [CHR 0x0A]) = ''/mnt/test''"
  by code_simp

theorem UpdateMountStatus_distinguishes_witness:
  "UpdateMountStatus fakeExecCommand test_volume (fake_init, []) =
     (None, test_volume\<lparr>Mounted := False, Target := []\<rparr>, (fake_init, [findmnt test_volume])) \<and>
   UpdateMountStatus fakeExecCommand (test_volume\<lparr>Mounted := False\<rparr>)
       (fake_init\<lparr>volumeMounted := True\<rparr>, []) =
     (None, test_volume\<lparr>Mounted := True, Target := ''/mnt/test''\<rparr>,
      (fake_init\<lparr>volumeMounted := True\<rparr>, [findmnt test_volume])) \<and>
   UpdateMountStatus (\<lambda>args w. (refused, w)) (test_volume\<lparr>Mounted := True, Target := ''/mnt/test''\<rparr>)
       (fake_init, []) =
     (Some (CmdError StartError), test_volume\<lparr>Mounted := True, Target := ''/mnt/test''\<rparr>,
      (fake_init, [findmnt test_volume]))"
proof -
  have a: "Err (defaultCommandResult :: Volume cmd_result) = Some (ExitError 1)"
    by (simp add: defaultCommandResult_def)
  have b: "Err (succeeded ([CHR 0x0A] @ ''/mnt/test'' @ [CHR 0x0A]) :: Volume cmd_result) = None"
    "Stdout (succeeded ([CHR 0x0A] @ ''/mnt/test'' @ [CHR 0x0A]) :: Volume cmd_result) =
       [CHR 0x0A] @ ''/mnt/test'' @ [CHR 0x0A]"
    by (simp_all add: succeeded_def)
  have c: "Err (refused :: Volume cmd_result) = Some StartError"
    by (simp add: refused_def)
  have d: "findmnt (test_volume\<lparr>Mounted := False\<rparr>) = findmnt test_volume"
    "findmnt (test_volume\<lparr>Mounted := True, Target := ''/mnt/test''\<rparr>) = findmnt test_volume"
    by (simp_all add: findmnt_def DeviceName_def)
  have m: "fakeExecCommand (findmnt (test_volume\<lparr>Mounted := False\<rparr>)) (fake_init\<lparr>volumeMounted := True\<rparr>) =
     (succeeded ([CHR 0x0A] @ ''/mnt/test'' @ [CHR 0x0A]), fake_init\<lparr>volumeMounted := True\<rparr>)"
    using fake_findmnt_mounted d by simp
  have n: "(\<lambda>args w. (refused, w)) (findmnt (test_volume\<lparr>Mounted := True, Target := ''/mnt/test''\<rparr>)) fake_init
             = (refused, fake_init)"
    by simp
  show ?thesis
    using UpdateMountStatus_distinguishes
        [where be = fakeExecCommand and volume = test_volume and w = fake_init and l = "[]",
         OF fake_findmnt_unmounted]
      UpdateMountStatus_distinguishes
        [where be = fakeExecCommand and volume = "test_volume\<lparr>Mounted := False\<rparr>"
           and w = "fake_init\<lparr>volumeMounted := True\<rparr>" and l = "[]", OF m]
      UpdateMountStatus_distinguishes
        [where be = "\<lambda>args w. (refused, w)"
           and volume = "test_volume\<lparr>Mounted := True, Target := ''/mnt/test''\<rparr>"
           and w = fake_init and l = "[]", OF n]
      a b c d TrimSpace_mnt_test
    by (simp add: test_volume_def)
qed

subsection \<open>Building the pool\<close>

text \<open>
  C10. A pool path accepted by \<open>isThinPool\<close> that splits on \<open>/\<close> into exactly three parts
  passes the length check of \<open>NewThinPool\<close>, and the read of \<open>parts[3]\<close> that follows is
  out of range: the call panics.
\<close>

theorem NewThinPool_three_parts_panics:
  assumes "isThinPool be longName s = (True, s1)"
    and "length (Split longName CHR ''/'') = 3"
  shows "NewThinPool be longName s = (Panic, s1)"
  using assms by (simp add: NewThinPool_def)

theorem NewThinPool_three_parts_panics_witness:
  "NewThinPool (\<lambda>args w. (succeeded ''twi-aotz--'', w)) ''/dev/vg0'' ((), []) =
     (Panic, ((), [[''/usr/sbin/lvs'', ''/dev/vg0'', ''--noheadings'', ''-o'', ''lv_attr'']]))"
proof -
  have a: "isThinPool (\<lambda>args w. (succeeded ''twi-aotz--'', w)) ''/dev/vg0'' ((), []) =
             (True, ((), [[''/usr/sbin/lvs'', ''/dev/vg0'', ''--noheadings'', ''-o'', ''lv_attr'']]))"
    by code_simp
  have b: "length (Split ''/dev/vg0'' CHR ''/'') = 3"
    by code_simp
  show ?thesis
    using NewThinPool_three_parts_panics [OF a b] by simp
qed

subsection \<open>The node service\<close>

text \<open>
  C5. A publish or unpublish request whose volume identifier or target path is empty gets
  an \<open>InvalidArgument\<close> status and the state of the run is untouched: no command was run.
  A request with both fields set never gets \<open>InvalidArgument\<close>.
\<close>

theorem invalid_argument_iff_field_missing:
  "(VolumeId req = [] \<or> TargetPath req = [] \<longrightarrow>
      is_InvalidArgument (fst (NodePublishVolume d req s)) \<and> snd (NodePublishVolume d req s) = s \<and>
      is_InvalidArgument (fst (NodeUnpublishVolume d req s)) \<and> snd (NodeUnpublishVolume d req s) = s) \<and>
   (VolumeId req \<noteq> [] \<and> TargetPath req \<noteq> [] \<longrightarrow>
      \<not> is_InvalidArgument (fst (NodePublishVolume d req s)) \<and>
      \<not> is_InvalidArgument (fst (NodeUnpublishVolume d req s)))"
  by (auto simp: NodePublishVolume_def NodeUnpublishVolume_def split: option.splits list.splits)

theorem invalid_argument_iff_field_missing_witness:
  "is_InvalidArgument (fst (NodePublishVolume test_driver \<lparr>VolumeId = [], TargetPath = ''/mnt/test''\<rparr> (fake_init, []))) \<and>
   snd (NodePublishVolume test_driver \<lparr>VolumeId = [], TargetPath = ''/mnt/test''\<rparr> (fake_init, [])) = (fake_init, []) \<and>
   is_InvalidArgument (fst (NodeUnpublishVolume test_driver \<lparr>VolumeId = ''test-volume'', TargetPath = []\<rparr> (fake_init, []))) \<and>
   \<not> is_InvalidArgument (fst (NodePublishVolume test_driver \<lparr>VolumeId = ''test-volume'', TargetPath = ''/mnt/test''\<rparr> (fake_init, []))) \<and>
   \<not> is_InvalidArgument (fst (NodeUnpublishVolume test_driver \<lparr>VolumeId = ''test-volume'', TargetPath = ''/mnt/test''\<rparr> (fake_init, [])))"
  using invalid_argument_iff_field_missing [of "\<lparr>VolumeId = [], TargetPath = ''/mnt/test''\<rparr>" test_driver "(fake_init, [])"]
    invalid_argument_iff_field_missing [of "\<lparr>VolumeId = ''test-volume'', TargetPath = []\<rparr>" test_driver "(fake_init, [])"]
    invalid_argument_iff_field_missing [of "\<lparr>VolumeId = ''test-volume'', TargetPath = ''/mnt/test''\<rparr>" test_driver "(fake_init, [])"]
  by simp

text \<open>
  C4. A publish request for a volume that is not in the pool: \<open>NodePublishVolume\<close> returns
  the empty response and has run no command, and a lookup in the pool afterwards finds no
  volume of that name. Nothing was created, seeded or mounted.
\<close>

theorem NodePublishVolume_leaves_volume_absent:
  "NodePublishVolume test_driver \<lparr>VolumeId = ''test-volume'', TargetPath = ''/mnt/test''\<rparr>
       (fake_init\<lparr>volumeExists := False\<rparr>, []) =
     (Return (Inr ()), (fake_init\<lparr>volumeExists := False\<rparr>, [])) \<and>
   fst (GetVolume fakeExecCommand test_pool ''test-volume'' (fake_init\<lparr>volumeExists := False\<rparr>, [])) =
     Return None"
  by code_simp

subsection \<open>Creating a volume\<close>

text \<open>
  C1. A volume that is not in the pool is created with \<open>lvcreate\<close> at the size asked for,
  and the call succeeds with the volume in the pool; but the file system is made on the
  device of the pool, \<open>/dev/vg0/existing_thin_pool\<close>, and no \<open>mkfs.xfs\<close> is run on the
  new volume's device \<open>/dev/vg0/test-volume\<close>.
\<close>

theorem EnsureVolumeIsPresent_formats_the_pool:
  "EnsureVolumeIsPresent fakeExecCommand test_pool ''test-volume'' 1073741824
       (fake_init\<lparr>volumeExists := False\<rparr>, []) =
     (Return None, test_pool\<lparr>Volumes := [test_volume]\<rparr>,
      (fake_init\<lparr>volumeFormatted := True\<rparr>,
       [lvs_report test_pool,
        [''/usr/sbin/lvcreate'', ''-V'', ''1073741824B'', ''-T'', ''/dev/vg0/existing_thin_pool'',
         ''-n'', ''test-volume''],
        [''/usr/sbin/mkfs.xfs'', ''/dev/vg0/existing_thin_pool''],
        lvs_report test_pool,
        findmnt test_volume])) \<and>
   DeviceName test_volume = ''/dev/vg0/test-volume'' \<and>
   mkfs (DeviceName test_volume) \<noteq> [''/usr/sbin/mkfs.xfs'', ''/dev/vg0/existing_thin_pool'']"
  by code_simp

subsection \<open>Loading the configuration\<close>

lemma substitute_other: "k \<noteq> key \<Longrightarrow> substitute secret key env k = env k"
  by (simp add: substitute_def split: option.splits)

lemma substitute_same:
  "substitute secret key env key =
     (case env key of
        None \<Rightarrow> None
      | Some val \<Rightarrow>
          if HasPrefix val ''secret:'' \<and> drop 7 val \<in> dom secret then secret (drop 7 val)
          else Some val)"
  by (auto simp: substitute_def split: option.splits)

lemma fold_substitute:
  "distinct keys \<Longrightarrow>
   fold (substitute secret) keys env k =
     (if k \<in> set keys
      then (case env k of
              None \<Rightarrow> None
            | Some val \<Rightarrow>
                if HasPrefix val ''secret:'' \<and> drop 7 val \<in> dom secret then secret (drop 7 val)
                else Some val)
      else env k)"
proof (induction keys arbitrary: env)
  case Nil
  then show ?case by simp
next
  case (Cons key keys)
  have rest: "distinct keys" and fresh: "key \<notin> set keys"
    using Cons.prems by simp_all
  show ?case
  proof (cases "k = key")
    case True
    then show ?thesis
      using Cons.IH [OF rest, of "substitute secret key env"] fresh
      by (simp add: substitute_same)
  next
    case False
    then show ?thesis
      using Cons.IH [OF rest, of "substitute secret key env"]
      by (simp add: substitute_other)
  qed
qed

lemma fold_substitute_dom:
  assumes "distinct keys" and "set keys = dom env"
  shows "fold (substitute secret) keys env k =
     (case env k of
        None \<Rightarrow> None
      | Some val \<Rightarrow>
          if HasPrefix val ''secret:'' \<and> drop 7 val \<in> dom secret then secret (drop 7 val)
          else Some val)"
proof (cases "env k")
  case None
  then have "k \<notin> set keys" using assms(2) by auto
  then show ?thesis using None by (simp add: fold_substitute [OF assms(1)])
next
  case (Some val)
  then have "k \<in> set keys" using assms(2) by auto
  then show ?thesis by (simp add: fold_substitute [OF assms(1)])
qed

text \<open>
  C9. When both files are read and decoded, \<open>LoadConfig\<close> returns no error, and in the
  configuration it returns every environment value of every destination that starts with
  \<open>secret:\<close> and whose rest is a key of the secret file is the secret's value, as it stands
  in the secret file, and every other value is as decoded; the repositories and the
  volume information are as decoded. The order in which the keys are visited does not
  matter.
\<close>

theorem LoadConfig_resolves_secrets:
  assumes "ReadFile secretFilePath = Inr secretData"
    and "DecodeSecret secretData = Inr secret"
    and "ReadFile configFilePath = Inr configData"
    and "DecodeConfig configData = (cfg, None)"
    and "\<forall>repo \<in> set (ResticRepo cfg).
           distinct (order (Environment repo)) \<and> set (order (Environment repo)) = dom (Environment repo)"
  shows "snd (LoadConfig ReadFile DecodeSecret DecodeConfig order configFilePath secretFilePath) = None \<and>
         VolumeInfo (fst (LoadConfig ReadFile DecodeSecret DecodeConfig order configFilePath secretFilePath)) =
           VolumeInfo cfg \<and>
         length (ResticRepo (fst (LoadConfig ReadFile DecodeSecret DecodeConfig order configFilePath secretFilePath))) =
           length (ResticRepo cfg) \<and>
         (\<forall>i < length (ResticRepo cfg).
            Repository (ResticRepo (fst (LoadConfig ReadFile DecodeSecret DecodeConfig order configFilePath secretFilePath)) ! i) =
              Repository (ResticRepo cfg ! i) \<and>
            (\<forall>key.
               Environment (ResticRepo (fst (LoadConfig ReadFile DecodeSecret DecodeConfig order configFilePath secretFilePath)) ! i) key =
                 (case Environment (ResticRepo cfg ! i) key of
                    None \<Rightarrow> None
                  | Some val \<Rightarrow>
                      if HasPrefix val ''secret:'' \<and> drop 7 val \<in> dom secret then secret (drop 7 val)
                      else Some val)))"
proof -
  let ?L = "LoadConfig ReadFile DecodeSecret DecodeConfig order configFilePath secretFilePath"
  have L: "?L = (cfg\<lparr>ResticRepo :=
                   map (\<lambda>repo. repo\<lparr>Environment :=
                          fold (substitute secret) (order (Environment repo)) (Environment repo)\<rparr>)
                     (ResticRepo cfg)\<rparr>, None)"
    using assms(1-4) by (simp add: LoadConfig_def)
  have env: "Environment (ResticRepo (fst ?L) ! i) key =
       (case Environment (ResticRepo cfg ! i) key of
          None \<Rightarrow> None
        | Some val \<Rightarrow>
            if HasPrefix val ''secret:'' \<and> drop 7 val \<in> dom secret then secret (drop 7 val)
            else Some val)"
    if "i < length (ResticRepo cfg)" for i key
  proof -
    have "ResticRepo cfg ! i \<in> set (ResticRepo cfg)"
      using that by simp
    then have "distinct (order (Environment (ResticRepo cfg ! i)))"
      and "set (order (Environment (ResticRepo cfg ! i))) = dom (Environment (ResticRepo cfg ! i))"
      using assms(5) by blast+
    then show ?thesis
      using that by (simp add: L fold_substitute_dom)
  qed
  have repo: "Repository (ResticRepo (fst ?L) ! i) = Repository (ResticRepo cfg ! i)"
    if "i < length (ResticRepo cfg)" for i
    using that by (simp add: L)
  show ?thesis
    using env repo by (simp add: L)
qed

theorem LoadConfig_resolves_secrets_witness:
  "snd (LoadConfig (\<lambda>path. (Inr path :: unit + string))
          (\<lambda>data. Inr [''pw'' \<mapsto> ''secret:hunter2''])
          (\<lambda>data. (example_config, None))
          (\<lambda>env. [''AWS_REGION'', ''RESTIC_PASSWORD''])
          ''/local/config.toml'' ''/secrets/secret.toml'') = None \<and>
   Environment (ResticRepo (fst (LoadConfig (\<lambda>path. (Inr path :: unit + string))
          (\<lambda>data. Inr [''pw'' \<mapsto> ''secret:hunter2''])
          (\<lambda>data. (example_config, None))
          (\<lambda>env. [''AWS_REGION'', ''RESTIC_PASSWORD''])
          ''/local/config.toml'' ''/secrets/secret.toml'')) ! 0) ''RESTIC_PASSWORD'' = Some ''secret:hunter2'' \<and>
   Environment (ResticRepo (fst (LoadConfig (\<lambda>path. (Inr path :: unit + string))
          (\<lambda>data. Inr [''pw'' \<mapsto> ''secret:hunter2''])
          (\<lambda>data. (example_config, None))
          (\<lambda>env. [''AWS_REGION'', ''RESTIC_PASSWORD''])
          ''/local/config.toml'' ''/secrets/secret.toml'')) ! 0) ''AWS_REGION'' = Some ''eu''"
proof -
  let ?RF = "\<lambda>path. (Inr path :: unit + string)"
  let ?DS = "\<lambda>data :: string. (Inr [''pw'' \<mapsto> ''secret:hunter2''] :: unit + Secret)"
  let ?DC = "\<lambda>data :: string. (example_config, None :: unit option)"
  let ?ord = "\<lambda>env :: string \<rightharpoonup> string. [''AWS_REGION'', ''RESTIC_PASSWORD'']"
  have h1: "?RF ''/secrets/secret.toml'' = Inr ''/secrets/secret.toml''" by simp
  have h2: "?DS ''/secrets/secret.toml'' = Inr [''pw'' \<mapsto> ''secret:hunter2'']" by simp
  have h3: "?RF ''/local/config.toml'' = Inr ''/local/config.toml''" by simp
  have h4: "?DC ''/local/config.toml'' = (example_config, None)" by simp
  have h5: "\<forall>repo \<in> set (ResticRepo example_config).
              distinct (?ord (Environment repo)) \<and> set (?ord (Environment repo)) = dom (Environment repo)"
    by (auto simp: example_config_def)
  have len: "(0::nat) < length (ResticRepo example_config)"
    by (simp add: example_config_def)
  have e: "Environment (ResticRepo example_config ! 0) =
             [''RESTIC_PASSWORD'' \<mapsto> ''secret:pw'', ''AWS_REGION'' \<mapsto> ''eu'']"
    by (simp add: example_config_def)
  have p: "HasPrefix ''secret:pw'' ''secret:''" "\<not> HasPrefix ''eu'' ''secret:''"
    by (simp_all add: HasPrefix_def)
  note T = LoadConfig_resolves_secrets
             [where ReadFile = ?RF and DecodeSecret = ?DS and DecodeConfig = ?DC and order = ?ord,
              OF h1 h2 h3 h4 h5]
  from T have a: "snd (LoadConfig ?RF ?DS ?DC ?ord ''/local/config.toml'' ''/secrets/secret.toml'') = None"
    by blast
  from T len have b: "\<forall>key.
       Environment (ResticRepo (fst (LoadConfig ?RF ?DS ?DC ?ord ''/local/config.toml'' ''/secrets/secret.toml'')) ! 0) key =
         (case Environment (ResticRepo example_config ! 0) key of
            None \<Rightarrow> None
          | Some val \<Rightarrow>
              if HasPrefix val ''secret:'' \<and> drop 7 val \<in> dom [''pw'' \<mapsto> ''secret:hunter2'']
              then [''pw'' \<mapsto> ''secret:hunter2''] (drop 7 val)
              else Some val)"
    by blast
  show ?thesis
    using a b [rule_format, of "''RESTIC_PASSWORD''"] b [rule_format, of "''AWS_REGION''"] e p
    by simp
qed

subsection \<open>Selecting a snapshot\<close>

lemma nearest_cases:
  "(nearest fn T ds best = best \<and>
      (\<forall>d \<in> set ds. \<forall>c. fn d T = Snapshot c \<longrightarrow> (\<exists>b. best = Some b \<and> distance T b \<le> distance T c))) \<or>
   (\<exists>pre d post s.
      ds = pre @ d # post \<and> nearest fn T ds best = Some s \<and> fn d T = Snapshot s \<and>
      (\<forall>b. best = Some b \<longrightarrow> distance T s < distance T b) \<and>
      (\<forall>d' \<in> set pre. \<forall>c. fn d' T = Snapshot c \<longrightarrow> distance T s < distance T c) \<and>
      (\<forall>d' \<in> set post. \<forall>c. fn d' T = Snapshot c \<longrightarrow> distance T s \<le> distance T c))"
  (is "?keeps ds best \<or> ?picks ds best")
proof (induction ds arbitrary: best)
  case Nil
  then show ?case by simp
next
  case (Cons d0 ds)
  define best' where "best' =
    (case fn d0 T of
       Snapshot snap \<Rightarrow>
         (case best of
            None \<Rightarrow> Some snap
          | Some b \<Rightarrow> if distance T snap < distance T b then Some snap else Some b)
     | NoSnapshot \<Rightarrow> best
     | QueryFailed \<Rightarrow> best)"
  have step: "nearest fn T (d0 # ds) best = nearest fn T ds best'"
    by (simp add: best'_def)
  consider (keeps) "?keeps ds best'" | (picks) "?picks ds best'"
    using Cons.IH [of best'] by blast
  then show ?case
  proof cases
    case keeps
    show ?thesis
    proof (cases "best' = best")
      case True
      have "\<exists>b. best = Some b \<and> distance T b \<le> distance T c" if "fn d0 T = Snapshot c" for c
        using that True by (auto simp: best'_def split: option.splits if_splits)
      then show ?thesis
        using keeps True step by auto
    next
      case False
      then obtain s0 where s0: "fn d0 T = Snapshot s0" "best' = Some s0"
        and better: "\<forall>b. best = Some b \<longrightarrow> distance T s0 < distance T b"
        by (auto simp: best'_def split: found.splits option.splits if_splits)
      have later: "\<forall>d' \<in> set ds. \<forall>c. fn d' T = Snapshot c \<longrightarrow> distance T s0 \<le> distance T c"
        using keeps s0 by auto
      have "d0 # ds = [] @ d0 # ds \<and> nearest fn T (d0 # ds) best = Some s0 \<and> fn d0 T = Snapshot s0 \<and>
            (\<forall>b. best = Some b \<longrightarrow> distance T s0 < distance T b) \<and>
            (\<forall>d' \<in> set []. \<forall>c. fn d' T = Snapshot c \<longrightarrow> distance T s0 < distance T c) \<and>
            (\<forall>d' \<in> set ds. \<forall>c. fn d' T = Snapshot c \<longrightarrow> distance T s0 \<le> distance T c)"
        using keeps s0 better later step by simp
      then show ?thesis by blast
    qed
  next
    case picks
    then obtain pre d post s where p: "ds = pre @ d # post" "nearest fn T ds best' = Some s"
      "fn d T = Snapshot s" "\<forall>b. best' = Some b \<longrightarrow> distance T s < distance T b"
      "\<forall>d' \<in> set pre. \<forall>c. fn d' T = Snapshot c \<longrightarrow> distance T s < distance T c"
      "\<forall>d' \<in> set post. \<forall>c. fn d' T = Snapshot c \<longrightarrow> distance T s \<le> distance T c"
      by blast
    have first: "distance T s < distance T c" if "fn d0 T = Snapshot c" for c
      using that p(4) by (auto simp: best'_def split: option.splits if_splits)
    have old: "\<forall>b. best = Some b \<longrightarrow> distance T s < distance T b"
      using p(4) by (auto simp: best'_def split: found.splits option.splits if_splits)
    have "d0 # ds = (d0 # pre) @ d # post \<and> nearest fn T (d0 # ds) best = Some s \<and> fn d T = Snapshot s \<and>
          (\<forall>b. best = Some b \<longrightarrow> distance T s < distance T b) \<and>
          (\<forall>d' \<in> set (d0 # pre). \<forall>c. fn d' T = Snapshot c \<longrightarrow> distance T s < distance T c) \<and>
          (\<forall>d' \<in> set post. \<forall>c. fn d' T = Snapshot c \<longrightarrow> distance T s \<le> distance T c)"
      using p first old step by auto
    then show ?thesis by blast
  qed
qed

text \<open>
  C6. \<open>SelectSnapshot\<close> returns nothing exactly when no destination reports a snapshot, so
  in particular when every destination reports none or fails. Otherwise it returns the
  snapshot of a destination such that every destination configured before it is strictly
  farther from the target time and every destination configured after it is at least as
  far: the smallest distance, and among equal distances the first configured destination.
\<close>

theorem SelectSnapshot_nearest_first_configured:
  "(case SelectSnapshot findNearest destinations targetTime of
      None \<Rightarrow> (\<forall>d \<in> set destinations. \<forall>c. findNearest d targetTime \<noteq> Snapshot c)
    | Some s \<Rightarrow>
        (\<exists>pre d post.
           destinations = pre @ d # post \<and> findNearest d targetTime = Snapshot s \<and>
           (\<forall>d' \<in> set pre. \<forall>c. findNearest d' targetTime = Snapshot c \<longrightarrow>
              distance targetTime s < distance targetTime c) \<and>
           (\<forall>d' \<in> set post. \<forall>c. findNearest d' targetTime = Snapshot c \<longrightarrow>
              distance targetTime s \<le> distance targetTime c))) \<and>
   ((\<forall>d \<in> set destinations. findNearest d targetTime = NoSnapshot \<or> findNearest d targetTime = QueryFailed) \<longrightarrow>
      SelectSnapshot findNearest destinations targetTime = None)"
proof -
  have main: "(case SelectSnapshot findNearest destinations targetTime of
      None \<Rightarrow> (\<forall>d \<in> set destinations. \<forall>c. findNearest d targetTime \<noteq> Snapshot c)
    | Some s \<Rightarrow>
        (\<exists>pre d post.
           destinations = pre @ d # post \<and> findNearest d targetTime = Snapshot s \<and>
           (\<forall>d' \<in> set pre. \<forall>c. findNearest d' targetTime = Snapshot c \<longrightarrow>
              distance targetTime s < distance targetTime c) \<and>
           (\<forall>d' \<in> set post. \<forall>c. findNearest d' targetTime = Snapshot c \<longrightarrow>
              distance targetTime s \<le> distance targetTime c)))"
    using nearest_cases [of findNearest targetTime destinations None]
    unfolding SelectSnapshot_def
    by (cases "nearest findNearest targetTime destinations None") auto
  have none: "SelectSnapshot findNearest destinations targetTime = None"
    if "\<forall>d \<in> set destinations. findNearest d targetTime = NoSnapshot \<or> findNearest d targetTime = QueryFailed"
  proof (cases "SelectSnapshot findNearest destinations targetTime")
    case None
    then show ?thesis .
  next
    case (Some s)
    then have "\<exists>pre d post. destinations = pre @ d # post \<and> findNearest d targetTime = Snapshot s"
      using main by auto
    then obtain pre d post where "destinations = pre @ d # post" "findNearest d targetTime = Snapshot s"
      by blast
    then have "d \<in> set destinations" "findNearest d targetTime = Snapshot s"
      by simp_all
    then show ?thesis using that by auto
  qed
  show ?thesis using main none by blast
qed

theorem SelectSnapshot_nearest_first_configured_witness:
  "SelectSnapshot example_findNearest example_destinations 1000 =
     Some \<lparr>repository = ''b'', timestamp = 995, handle = ''snapshot''\<rparr> \<and>
   (\<exists>pre d post.
      example_destinations = pre @ d # post \<and>
      example_findNearest d 1000 = Snapshot \<lparr>repository = ''b'', timestamp = 995, handle = ''snapshot''\<rparr> \<and>
      (\<forall>d' \<in> set pre. \<forall>c. example_findNearest d' 1000 = Snapshot c \<longrightarrow>
         distance 1000 \<lparr>repository = ''b'', timestamp = 995, handle = ''snapshot''\<rparr> < distance 1000 c) \<and>
      (\<forall>d' \<in> set post. \<forall>c. example_findNearest d' 1000 = Snapshot c \<longrightarrow>
         distance 1000 \<lparr>repository = ''b'', timestamp = 995, handle = ''snapshot''\<rparr> \<le> distance 1000 c)) \<and>
   SelectSnapshot example_findNearest
     [\<lparr>Environment = Map.empty, Repository = ''x''\<rparr>, \<lparr>Environment = Map.empty, Repository = ''y''\<rparr>] 1000 = None"
proof -
  have v: "SelectSnapshot example_findNearest example_destinations 1000 =
             Some \<lparr>repository = ''b'', timestamp = 995, handle = ''snapshot''\<rparr>"
    by code_simp
  have n: "\<forall>d \<in> set [\<lparr>Environment = Map.empty, Repository = ''x''\<rparr>, \<lparr>Environment = Map.empty, Repository = ''y''\<rparr>].
             example_findNearest d 1000 = NoSnapshot \<or> example_findNearest d 1000 = QueryFailed"
    by (simp add: example_findNearest_def)
  show ?thesis
    using SelectSnapshot_nearest_first_configured
        [where findNearest = example_findNearest and destinations = example_destinations
           and targetTime = 1000]
      SelectSnapshot_nearest_first_configured
        [where findNearest = example_findNearest
           and destinations = "[\<lparr>Environment = Map.empty, Repository = ''x''\<rparr>,
                                \<lparr>Environment = Map.empty, Repository = ''y''\<rparr>]"
           and targetTime = 1000]
      v n
    by simp
qed

subsection \<open>Commands and the log\<close>

lemma execCommand_eq:
  "execCommand be args s = (fst (be args (fst s)), (snd (be args (fst s)), snd s @ [args]))"
  by (simp add: execCommand_def split: prod.splits)

lemma is_query_findmnt [simp]: "is_query (findmnt v)"
  by (simp add: is_query_def findmnt_def)

lemma is_query_lvs_report [simp]: "is_query (lvs_report tp)"
  by (simp add: is_query_def lvs_report_def)

lemma query_is_no_change:
  "is_query c \<Longrightarrow> \<not> is_create c \<and> \<not> is_format c \<and> \<not> is_extend c \<and> \<not> is_remove c"
  by (auto simp: is_query_def is_create_def is_format_def is_extend_def is_remove_def)

lemma filter_queries:
  assumes "\<forall>c \<in> set cmds. is_query c"
  shows "filter is_extend cmds = []" and "filter is_remove cmds = []"
  using assms by (auto simp: filter_empty_conv dest: query_is_no_change)

lemma is_extend_lvextend [simp]: "is_extend (lvextend sz v)"
  by (simp add: is_extend_def lvextend_def)

lemma is_remove_lvremove [simp]: "is_remove (lvremove v)"
  by (simp add: is_remove_def lvremove_def)

lemma read_only_query: "read_only be \<Longrightarrow> is_query args \<Longrightarrow> snd (be args w) = w"
  by (simp add: read_only_def)

subsection \<open>Refreshing the pool\<close>

lemma UpdateMountStatus_effect:
  assumes "UpdateMountStatus be v s = (e, v', s')"
  shows "snd s' = snd s @ [findmnt v]" and "fst s' = snd (be (findmnt v) (fst s))"
    and "LVName v' = LVName v" and "LVSize v' = LVSize v" and "VGName v' = VGName v"
  using assms
  by (auto simp: UpdateMountStatus_def execCommand_eq split: option.splits exec_error.splits if_splits)

lemma UpdateMountStatus_again:
  assumes "UpdateMountStatus be v s = (e, v', s')" and "fst s2 = fst s"
  shows "UpdateMountStatus be v s2 = (e, v', (fst s', snd s2 @ [findmnt v]))"
  using assms
  by (auto simp: UpdateMountStatus_def execCommand_eq split: option.splits exec_error.splits if_splits)

lemma updateMountStatuses_effect:
  "updateMountStatuses be vs s = (vs', s') \<Longrightarrow>
   snd s' = snd s @ map findmnt vs \<and> map LVName vs' = map LVName vs \<and> map LVSize vs' = map LVSize vs"
proof (induction vs arbitrary: s vs' s')
  case Nil
  then show ?case by simp
next
  case (Cons v vs)
  obtain e v1 s1 where u: "UpdateMountStatus be v s = (e, v1, s1)"
    by (metis prod_cases3)
  obtain vs1 s2 where r: "updateMountStatuses be vs s1 = (vs1, s2)"
    by (metis surj_pair)
  have res: "vs' = v1 # vs1" "s' = s2"
    using Cons.prems u r by simp_all
  show ?case
    using Cons.IH [OF r] UpdateMountStatus_effect [OF u] res by simp
qed

lemma updateMountStatuses_read_only:
  "read_only be \<Longrightarrow> updateMountStatuses be vs s = (vs', s') \<Longrightarrow> fst s' = fst s"
proof (induction vs arbitrary: s vs' s')
  case Nil
  then show ?case by simp
next
  case (Cons v vs)
  obtain e v1 s1 where u: "UpdateMountStatus be v s = (e, v1, s1)"
    by (metis prod_cases3)
  obtain vs1 s2 where r: "updateMountStatuses be vs s1 = (vs1, s2)"
    by (metis surj_pair)
  have res: "s' = s2"
    using Cons.prems u r by simp
  have "fst s1 = fst s"
    using UpdateMountStatus_effect(2) [OF u] read_only_query [OF Cons.prems(1)] by simp
  then show ?case
    using Cons.IH [OF Cons.prems(1) r] res by simp
qed

lemma updateMountStatuses_again:
  "read_only be \<Longrightarrow> updateMountStatuses be vs s = (vs', s') \<Longrightarrow> fst s2 = fst s \<Longrightarrow>
   updateMountStatuses be vs s2 = (vs', (fst s2, snd s2 @ map findmnt vs))"
proof (induction vs arbitrary: s vs' s' s2)
  case Nil
  then show ?case by (auto simp: prod_eq_iff)
next
  case (Cons v vs)
  obtain e v1 s1 where u: "UpdateMountStatus be v s = (e, v1, s1)"
    by (metis prod_cases3)
  obtain vs1 s3 where r: "updateMountStatuses be vs s1 = (vs1, s3)"
    by (metis surj_pair)
  have res: "vs' = v1 # vs1"
    using Cons.prems(2) u r by simp
  have same: "fst s1 = fst s"
    using UpdateMountStatus_effect(2) [OF u] read_only_query [OF Cons.prems(1)] by simp
  have u2: "UpdateMountStatus be v s2 = (e, v1, (fst s1, snd s2 @ [findmnt v]))"
    using UpdateMountStatus_again [OF u Cons.prems(3)] .
  have "updateMountStatuses be vs (fst s1, snd s2 @ [findmnt v]) =
          (vs1, (fst (fst s1, snd s2 @ [findmnt v]), snd (fst s1, snd s2 @ [findmnt v]) @ map findmnt vs))"
    using Cons.IH [OF Cons.prems(1) r, of "(fst s1, snd s2 @ [findmnt v])"] by simp
  then show ?case
    using u2 res same Cons.prems(3) by simp
qed

lemma refreshVolumes_log:
  assumes "refreshVolumes be tp s = (out, tp', s')"
  shows "\<exists>cmds. snd s' = snd s @ cmds \<and> (\<forall>c \<in> set cmds. is_query c)"
    and "LongName tp' = LongName tp" and "Name tp' = Name tp" and "PoolVGName tp' = PoolVGName tp"
proof -
  obtain r s1 where x: "execCommand be (lvs_report tp) s = (r, s1)"
    by (metis surj_pair)
  have s1: "snd s1 = snd s @ [lvs_report tp]"
    using x by (auto simp: execCommand_eq)
  show "\<exists>cmds. snd s' = snd s @ cmds \<and> (\<forall>c \<in> set cmds. is_query c)"
  proof (cases "\<exists>rep reps. Err r = None \<and> Decoded r = Some (rep # reps)")
    case True
    then obtain rep reps where d: "Err r = None" "Decoded r = Some (rep # reps)"
      by blast
    obtain vs s2 where u: "updateMountStatuses be rep s1 = (vs, s2)"
      by (metis surj_pair)
    have "s' = s2"
      using assms x d u by (simp add: refreshVolumes_def)
    then have "snd s' = snd s @ (lvs_report tp # map findmnt rep)"
      using updateMountStatuses_effect [OF u] s1 by simp
    moreover have "\<forall>c \<in> set (lvs_report tp # map findmnt rep). is_query c"
      by auto
    ultimately show ?thesis by blast
  next
    case False
    then have "s' = s1"
      using assms x
      by (auto simp: refreshVolumes_def split: option.splits list.splits)
    then have "snd s' = snd s @ [lvs_report tp]"
      using s1 by simp
    moreover have "\<forall>c \<in> set [lvs_report tp]. is_query c"
      by simp
    ultimately show ?thesis by blast
  qed
  show "LongName tp' = LongName tp" and "Name tp' = Name tp" and "PoolVGName tp' = PoolVGName tp"
    using assms
    by (auto simp: refreshVolumes_def split: prod.splits option.splits list.splits)
qed

lemma refreshVolumes_read_only:
  assumes "read_only be" and "refreshVolumes be tp s = (out, tp', s')"
  shows "fst s' = fst s"
proof -
  obtain r s1 where x: "execCommand be (lvs_report tp) s = (r, s1)"
    by (metis surj_pair)
  have s1: "fst s1 = fst s"
    using x read_only_query [OF assms(1), of "lvs_report tp"] by (auto simp: execCommand_eq)
  show ?thesis
  proof (cases "\<exists>rep reps. Err r = None \<and> Decoded r = Some (rep # reps)")
    case True
    then obtain rep reps where d: "Err r = None" "Decoded r = Some (rep # reps)"
      by blast
    obtain vs s2 where u: "updateMountStatuses be rep s1 = (vs, s2)"
      by (metis surj_pair)
    have "s' = s2"
      using assms(2) x d u by (simp add: refreshVolumes_def)
    then show ?thesis
      using updateMountStatuses_read_only [OF assms(1) u] s1 by simp
  next
    case False
    then have "s' = s1"
      using assms(2) x
      by (auto simp: refreshVolumes_def split: option.splits list.splits)
    then show ?thesis using s1 by simp
  qed
qed

text \<open>
  With a backend that the queries leave alone, a refresh that follows a refresh reads the
  same report: the outcome and the pool are the same again, and only queries are run.
\<close>

lemma refreshVolumes_again:
  assumes "read_only be" and "refreshVolumes be tp s = (out, tp', s')" and "fst s2 = fst s"
  shows "\<exists>cmds. refreshVolumes be tp' s2 = (out, tp', (fst s2, snd s2 @ cmds)) \<and> (\<forall>c \<in> set cmds. is_query c)"
proof -
  have names: "lvs_report tp' = lvs_report tp"
    using refreshVolumes_log(3,4) [OF assms(2)] by (simp add: lvs_report_def)
  obtain r s1 where x: "execCommand be (lvs_report tp) s = (r, s1)"
    by (metis surj_pair)
  have s1: "fst s1 = fst s"
    using x read_only_query [OF assms(1), of "lvs_report tp"] by (auto simp: execCommand_eq)
  have ro: "snd (be (lvs_report tp) (fst s)) = fst s"
    using read_only_query [OF assms(1)] by simp
  have x2: "execCommand be (lvs_report tp') s2 = (r, (fst s2, snd s2 @ [lvs_report tp]))"
    using x assms(3) ro names by (auto simp: execCommand_eq)
  show ?thesis
  proof (cases "\<exists>rep reps. Err r = None \<and> Decoded r = Some (rep # reps)")
    case True
    then obtain rep reps where d: "Err r = None" "Decoded r = Some (rep # reps)"
      by blast
    obtain vs s3 where u: "updateMountStatuses be rep s1 = (vs, s3)"
      by (metis surj_pair)
    have res: "out = Return None" "tp' = tp\<lparr>Volumes := vs\<rparr>"
      using assms(2) x d u by (simp_all add: refreshVolumes_def)
    have u2: "updateMountStatuses be rep (fst s2, snd s2 @ [lvs_report tp]) =
                (vs, (fst s2, (snd s2 @ [lvs_report tp]) @ map findmnt rep))"
      using updateMountStatuses_again [OF assms(1) u, of "(fst s2, snd s2 @ [lvs_report tp])"]
        s1 assms(3) by simp
    have "refreshVolumes be tp' s2 = (out, tp', (fst s2, snd s2 @ (lvs_report tp # map findmnt rep)))"
      using x2 d u2 res by (simp add: refreshVolumes_def)
    moreover have "\<forall>c \<in> set (lvs_report tp # map findmnt rep). is_query c"
      by auto
    ultimately show ?thesis by blast
  next
    case False
    then have res: "tp' = tp \<and> refreshVolumes be tp' s2 = (out, tp', (fst s2, snd s2 @ [lvs_report tp]))"
      using assms(2) x x2
      by (auto simp: refreshVolumes_def split: option.splits list.splits)
    moreover have "\<forall>c \<in> set [lvs_report tp]. is_query c"
      by simp
    ultimately show ?thesis by blast
  qed
qed

lemma find_by_name:
  "map LVName vs' = map LVName vs \<Longrightarrow> map LVSize vs' = map LVSize vs \<Longrightarrow>
   (case find (\<lambda>x. LVName x = n) vs of
      None \<Rightarrow> find (\<lambda>x. LVName x = n) vs' = None
    | Some v \<Rightarrow> (\<exists>v'. find (\<lambda>x. LVName x = n) vs' = Some v' \<and> LVSize v' = LVSize v))"
proof (induction vs arbitrary: vs')
  case Nil
  then show ?case by simp
next
  case (Cons a vs)
  then obtain a' vs1 where vs': "vs' = a' # vs1"
    by (cases vs') auto
  then show ?case
    using Cons.IH [of vs1] Cons.prems by (auto split: option.splits)
qed

lemma refreshVolumes_reports:
  assumes "reports be tp w n sz"
  shows "\<exists>tp' s' v'. refreshVolumes be tp (w, l) = (Return None, tp', s') \<and>
           find (\<lambda>x. LVName x = n) (Volumes tp') = Some v' \<and> LVSize v' = sz"
proof -
  obtain r w1 where x: "be (lvs_report tp) w = (r, w1)"
    by (metis surj_pair)
  from assms x obtain rep reps v0 where d: "Err r = None" "Decoded r = Some (rep # reps)"
    "find (\<lambda>x. LVName x = n) rep = Some v0" "LVSize v0 = sz"
    by (auto simp: reports_def split: option.splits list.splits)
  obtain vs s2 where u: "updateMountStatuses be rep (w1, l @ [lvs_report tp]) = (vs, s2)"
    by (metis surj_pair)
  have r: "refreshVolumes be tp (w, l) = (Return None, tp\<lparr>Volumes := vs\<rparr>, s2)"
    using x d u by (simp add: refreshVolumes_def execCommand_def)
  have "\<exists>v'. find (\<lambda>x. LVName x = n) vs = Some v' \<and> LVSize v' = LVSize v0"
    using find_by_name [of vs rep n] updateMountStatuses_effect [OF u] d(3) by simp
  then show ?thesis
    using r d(4) by auto
qed


subsection \<open>Looking a volume up\<close>

lemma GetVolume_Return:
  assumes "GetVolume be tp n s = (Return r, tp1, s1)"
  shows "\<exists>e. refreshVolumes be tp s = (Return e, tp1, s1)"
    and "r = find (\<lambda>x. LVName x = n) (Volumes tp1)"
  using assms by (auto simp: GetVolume_def split: prod.splits outcome.splits)

lemma GetVolume_after_refresh:
  "refreshVolumes be tp s = (Return e, tp1, s1) \<Longrightarrow>
   GetVolume be tp n s = (Return (find (\<lambda>x. LVName x = n) (Volumes tp1)), tp1, s1)"
  by (simp add: GetVolume_def)

lemma GetVolume_log:
  assumes "GetVolume be tp n s = (Return r, tp1, s1)"
  shows "\<exists>cmds. snd s1 = snd s @ cmds \<and> (\<forall>c \<in> set cmds. is_query c)"
    and "lvs_report tp1 = lvs_report tp"
proof -
  obtain e where "refreshVolumes be tp s = (Return e, tp1, s1)"
    using GetVolume_Return(1) [OF assms] by blast
  then show "\<exists>cmds. snd s1 = snd s @ cmds \<and> (\<forall>c \<in> set cmds. is_query c)"
    and "lvs_report tp1 = lvs_report tp"
    using refreshVolumes_log [of be tp s "Return e" tp1 s1] by (simp_all add: lvs_report_def)
qed

lemma issued_append [simp]: "issued l (w, l @ cmds) = cmds"
  by (simp add: issued_def)

subsection \<open>Extending a volume\<close>

lemma Extend_eq:
  "Extend be v sz (w1, l1) =
     (case Err (fst (be (lvextend sz v) w1)) of
        Some e \<Rightarrow> Some (Errorf ''failed to extend volume'' e (Stdout (fst (be (lvextend sz v) w1))))
      | None \<Rightarrow> None,
      (snd (be (lvextend sz v) w1), l1 @ [lvextend sz v]))"
  by (simp add: Extend_def execCommand_eq split: option.splits)

lemma EnsureVolumeIsPresent_extend_log:
  assumes "GetVolume be tp n (w, l) = (Return (Some v), tp1, (w1, l1))"
    and "sz \<noteq> 0" and "LVSize v < sz"
  shows "\<exists>cmds. snd (snd (snd (EnsureVolumeIsPresent be tp n sz (w, l)))) = l1 @ lvextend sz v # cmds \<and>
           (\<forall>c \<in> set cmds. is_query c)"
proof (cases "Err (fst (be (lvextend sz v) w1))")
  case (Some e)
  then have "snd (snd (snd (EnsureVolumeIsPresent be tp n sz (w, l)))) = l1 @ lvextend sz v # []"
    using assms by (simp add: EnsureVolumeIsPresent_def Extend_eq)
  then show ?thesis by auto
next
  case None
  obtain out tp3 s3 where r:
    "refreshVolumes be tp1 (snd (be (lvextend sz v) w1), l1 @ [lvextend sz v]) = (out, tp3, s3)"
    by (metis prod_cases3)
  then obtain cmds where c: "snd s3 = (l1 @ [lvextend sz v]) @ cmds" "\<forall>c \<in> set cmds. is_query c"
    using refreshVolumes_log(1) [OF r] by auto
  have "snd (snd (snd (EnsureVolumeIsPresent be tp n sz (w, l)))) = snd s3"
    using assms None r by (cases out) (simp_all add: EnsureVolumeIsPresent_def Extend_eq)
  then show ?thesis
    using c by auto
qed

text \<open>
  In the copy with \<open>Volume.Extend\<close>, for a volume that the lookup finds, with a size that
  is not negative: a call with a larger size runs exactly one \<open>lvextend\<close>, with the
  requested size and on the device of that volume; when that command succeeds and the backend then reports the volume at the
  requested size, the call succeeds and the pool's record of the volume has the requested
  size. A call with a smaller or equal size runs no \<open>lvextend\<close>, succeeds and ends where the
  lookup ended.
\<close>

theorem EnsureVolumeIsPresent_extends_once:
  assumes "GetVolume be tp volumeName (w, l) = (Return (Some v), tp1, (w1, l1))"
    and "0 \<le> LVSize v"
  shows "(LVSize v < sz \<longrightarrow>
            filter is_extend (issued l (snd (snd (EnsureVolumeIsPresent be tp volumeName sz (w, l))))) =
              [[''/usr/sbin/lvextend'', ''--size'', AsString sz, ''--resizefs'', DeviceName v]]) \<and>
         (LVSize v < sz \<and> Err (fst (be (lvextend sz v) w1)) = None \<and>
          reports be tp1 (snd (be (lvextend sz v) w1)) volumeName sz \<longrightarrow>
            (\<exists>tp2 s2 v'. EnsureVolumeIsPresent be tp volumeName sz (w, l) = (Return None, tp2, s2) \<and>
               find (\<lambda>x. LVName x = volumeName) (Volumes tp2) = Some v' \<and> LVSize v' = sz)) \<and>
         (sz \<le> LVSize v \<longrightarrow>
            EnsureVolumeIsPresent be tp volumeName sz (w, l) = (Return None, tp1, (w1, l1)) \<and>
            filter is_extend (issued l (w1, l1)) = [])"
proof -
  obtain cmds0 where l1: "l1 = l @ cmds0" and q0: "\<forall>c \<in> set cmds0. is_query c"
    using GetVolume_log(1) [OF assms(1)] by auto
  have none0: "filter is_extend cmds0 = []"
    using filter_queries(1) [OF q0] .
  have once: "filter is_extend (issued l (snd (snd (EnsureVolumeIsPresent be tp volumeName sz (w, l))))) =
                [[''/usr/sbin/lvextend'', ''--size'', AsString sz, ''--resizefs'', DeviceName v]]"
    if big: "LVSize v < sz"
  proof -
    have nz: "sz \<noteq> 0" using big assms(2) by simp
    obtain cmds where c:
      "snd (snd (snd (EnsureVolumeIsPresent be tp volumeName sz (w, l)))) = l1 @ lvextend sz v # cmds"
      "\<forall>c \<in> set cmds. is_query c"
      using EnsureVolumeIsPresent_extend_log [OF assms(1) nz big] by blast
    have "issued l (snd (snd (EnsureVolumeIsPresent be tp volumeName sz (w, l)))) =
            cmds0 @ lvextend sz v # cmds"
      using c(1) l1 by (simp add: issued_def)
    then show ?thesis
      using none0 filter_queries(1) [OF c(2)] by (simp add: lvextend_def is_extend_def)
  qed
  have sized: "\<exists>tp2 s2 v'. EnsureVolumeIsPresent be tp volumeName sz (w, l) = (Return None, tp2, s2) \<and>
                 find (\<lambda>x. LVName x = volumeName) (Volumes tp2) = Some v' \<and> LVSize v' = sz"
    if big: "LVSize v < sz" and ok: "Err (fst (be (lvextend sz v) w1)) = None"
      and rep: "reports be tp1 (snd (be (lvextend sz v) w1)) volumeName sz"
  proof -
    have nz: "sz \<noteq> 0" using big assms(2) by simp
    obtain tp2 s2 v' where r:
      "refreshVolumes be tp1 (snd (be (lvextend sz v) w1), l1 @ [lvextend sz v]) = (Return None, tp2, s2)"
      "find (\<lambda>x. LVName x = volumeName) (Volumes tp2) = Some v'" "LVSize v' = sz"
      using refreshVolumes_reports [OF rep] by blast
    have "EnsureVolumeIsPresent be tp volumeName sz (w, l) = (Return None, tp2, s2)"
      using assms(1) nz big ok r(1) by (simp add: EnsureVolumeIsPresent_def Extend_eq)
    then show ?thesis using r(2,3) by blast
  qed
  have noop: "EnsureVolumeIsPresent be tp volumeName sz (w, l) = (Return None, tp1, (w1, l1)) \<and>
              filter is_extend (issued l (w1, l1)) = []"
    if "sz \<le> LVSize v"
    using that assms(1) l1 none0 by (simp add: EnsureVolumeIsPresent_def)
  show ?thesis
    using once sized noop by blast
qed

subsection \<open>Calling twice\<close>

lemma EnsureVolumeIsPresent_ends_with_refresh:
  assumes "EnsureVolumeIsPresent be tp n sz s = (Return None, tp1, s1)"
  shows "\<exists>tpX sX e. refreshVolumes be tpX sX = (Return e, tp1, s1)"
proof -
  obtain g tpa sa where g: "GetVolume be tp n s = (g, tpa, sa)"
    by (metis prod_cases3)
  show ?thesis
  proof (cases g)
    case (Return r)
    then obtain e where first: "refreshVolumes be tp s = (Return e, tpa, sa)"
      using GetVolume_Return(1) g by blast
    show ?thesis
    proof (cases r)
      case None
      then show ?thesis
        using assms g Return
        by (auto simp: EnsureVolumeIsPresent_def
            split: prod.splits outcome.splits sum.splits)
    next
      case (Some v)
      show ?thesis
      proof (cases "sz \<noteq> 0 \<and> LVSize v < sz")
        case True
        then show ?thesis
          using assms g Return Some
          by (auto simp: EnsureVolumeIsPresent_def
              split: prod.splits outcome.splits option.splits)
      next
        case False
        then have "tp1 = tpa" "s1 = sa"
          using assms g Return Some by (auto simp: EnsureVolumeIsPresent_def)
        then show ?thesis using first by blast
      qed
    qed
  next
    case Panic
    then show ?thesis using assms g by (simp add: EnsureVolumeIsPresent_def)
  next
    case Fatal
    then show ?thesis using assms g by (simp add: EnsureVolumeIsPresent_def)
  qed
qed

text \<open>
  In the copy with \<open>Volume.Extend\<close>, with a backend that the queries leave alone: after a
  call that succeeded and left the volume in the pool at no less than the size asked for, a second call for the same
  name with an equal or smaller size succeeds, runs only queries (no \<open>lvcreate\<close>, no
  \<open>mkfs.xfs\<close>, no \<open>lvextend\<close>, no \<open>lvremove\<close>) and leaves the pool, with the record of
  the volume, and the backend as they were.
\<close>

theorem EnsureVolumeIsPresent_idempotent:
  assumes "read_only be"
    and "EnsureVolumeIsPresent be tp volumeName sz (w, l) = (Return None, tp1, (w1, l1))"
    and "find (\<lambda>x. LVName x = volumeName) (Volumes tp1) = Some v"
    and "sz \<le> LVSize v"
    and "sz2 \<le> sz"
  shows "\<exists>cmds. EnsureVolumeIsPresent be tp1 volumeName sz2 (w1, l1) = (Return None, tp1, (w1, l1 @ cmds)) \<and>
           (\<forall>c \<in> set cmds. \<not> is_create c \<and> \<not> is_format c \<and> \<not> is_extend c \<and> \<not> is_remove c)"
proof -
  obtain tpX sX e where last: "refreshVolumes be tpX sX = (Return e, tp1, (w1, l1))"
    using EnsureVolumeIsPresent_ends_with_refresh [OF assms(2)] by blast
  have "fst (w1, l1) = fst sX"
    using refreshVolumes_read_only [OF assms(1) last] by simp
  then obtain cmds where again: "refreshVolumes be tp1 (w1, l1) = (Return e, tp1, (w1, l1 @ cmds))"
    and q: "\<forall>c \<in> set cmds. is_query c"
    using refreshVolumes_again [OF assms(1) last, of "(w1, l1)"] by auto
  have "GetVolume be tp1 volumeName (w1, l1) = (Return (Some v), tp1, (w1, l1 @ cmds))"
    using GetVolume_after_refresh [OF again, of volumeName] assms(3) by simp
  moreover have "\<not> (sz2 \<noteq> 0 \<and> LVSize v < sz2)"
    using assms(4,5) by simp
  ultimately have "EnsureVolumeIsPresent be tp1 volumeName sz2 (w1, l1) = (Return None, tp1, (w1, l1 @ cmds))"
    by (auto simp: EnsureVolumeIsPresent_def)
  then show ?thesis
    using q query_is_no_change by blast
qed

text \<open>
  The same with the hypothesis on the backend: in the state the first call left, \<open>lvs\<close>
  reports the volume at no less than the size asked for.
\<close>

lemma EnsureVolumeIsPresent_idempotent_reported:
  assumes "read_only be"
    and "EnsureVolumeIsPresent be tp volumeName sz (w, l) = (Return None, tp1, (w1, l1))"
    and "reports be tp1 w1 volumeName szv"
    and "sz \<le> szv"
    and "sz2 \<le> sz"
  shows "\<exists>cmds. EnsureVolumeIsPresent be tp1 volumeName sz2 (w1, l1) = (Return None, tp1, (w1, l1 @ cmds)) \<and>
           (\<forall>c \<in> set cmds. \<not> is_create c \<and> \<not> is_format c \<and> \<not> is_extend c \<and> \<not> is_remove c)"
proof -
  obtain tpX sX e where last: "refreshVolumes be tpX sX = (Return e, tp1, (w1, l1))"
    using EnsureVolumeIsPresent_ends_with_refresh [OF assms(2)] by blast
  have "fst (w1, l1) = fst sX"
    using refreshVolumes_read_only [OF assms(1) last] by simp
  then obtain cmds where again: "refreshVolumes be tp1 (w1, l1) = (Return e, tp1, (w1, l1 @ cmds))"
    using refreshVolumes_again [OF assms(1) last, of "(w1, l1)"] by auto
  obtain tp' s' v' where r: "refreshVolumes be tp1 (w1, l1) = (Return None, tp', s')"
    and v': "find (\<lambda>x. LVName x = volumeName) (Volumes tp') = Some v'" "LVSize v' = szv"
    using refreshVolumes_reports [OF assms(3), of l1] by blast
  have "tp' = tp1"
    using r again by simp
  then have present: "find (\<lambda>x. LVName x = volumeName) (Volumes tp1) = Some v'"
    using v'(1) by simp
  have enough: "sz \<le> LVSize v'"
    using v'(2) assms(4) by simp
  show ?thesis
    using EnsureVolumeIsPresent_idempotent [OF assms(1,2) present enough assms(5)] .
qed

subsection \<open>Removing a volume\<close>



subsection \<open>The scenario of the test, on the test double\<close>

lemma helper_snd:
  "hd args \<noteq> ''/usr/bin/mount'' \<Longrightarrow> hd args \<noteq> ''/usr/bin/umount'' \<Longrightarrow> snd (helper args w) = w"
  by (simp add: helper_def)

lemma fake_lvs: "snd (fakeExecCommand (''/usr/sbin/lvs'' # rest) w) = w"
proof -
  have "fakeExecCommand (''/usr/sbin/lvs'' # rest) w = helper (''/usr/sbin/lvs'' # rest) w"
    by (simp add: fakeExecCommand_def)
  moreover have "snd (helper (''/usr/sbin/lvs'' # rest) w) = w"
    by (rule helper_snd) simp_all
  ultimately show ?thesis by simp
qed

lemma fake_findmnt: "snd (fakeExecCommand (''/usr/bin/findmnt'' # rest) w) = w"
proof -
  have "fakeExecCommand (''/usr/bin/findmnt'' # rest) w = helper (''/usr/bin/findmnt'' # rest) w"
    by (simp add: fakeExecCommand_def)
  moreover have "snd (helper (''/usr/bin/findmnt'' # rest) w) = w"
    by (rule helper_snd) simp_all
  ultimately show ?thesis by simp
qed

lemma fake_read_only: "read_only fakeExecCommand"
proof -
  have "snd (fakeExecCommand args w) = w" if q: "is_query args" for args w
  proof (cases args)
    case Nil
    then show ?thesis using q by (simp add: is_query_def)
  next
    case (Cons command rest)
    then have "command = ''/usr/sbin/lvs'' \<or> command = ''/usr/bin/findmnt''"
      using q by (simp add: is_query_def)
    then show ?thesis
    proof
      assume "command = ''/usr/sbin/lvs''"
      then show ?thesis using Cons fake_lvs by simp
    next
      assume "command = ''/usr/bin/findmnt''"
      then show ?thesis using Cons fake_findmnt by simp
    qed
  qed
  then show ?thesis by (simp add: read_only_def)
qed

lemma fake_lookup_present:
  "GetVolume fakeExecCommand test_pool ''test-volume'' (fake_init, []) =
     (Return (Some test_volume), test_pool\<lparr>Volumes := [test_volume]\<rparr>,
      (fake_init, [lvs_report test_pool, findmnt test_volume]))"
  by code_simp


lemma test_volume_fields:
  "LVSize test_volume = 1073741824" "LVName test_volume = ''test-volume''"
  "DeviceName test_volume = ''/dev/vg0/test-volume''"
  by (simp_all add: test_volume_def DeviceName_def)

lemma AsString_2G: "AsString 2147483648 = ''2147483648B''"
  by code_simp

theorem EnsureVolumeIsPresent_extends_once_witness:
  "filter is_extend
     (issued [] (snd (snd (EnsureVolumeIsPresent fakeExecCommand test_pool ''test-volume'' 2147483648
                             (fake_init, []))))) =
     [[''/usr/sbin/lvextend'', ''--size'', ''2147483648B'', ''--resizefs'', ''/dev/vg0/test-volume'']] \<and>
   (\<exists>tp2 s2 v'.
      EnsureVolumeIsPresent fakeExecCommand test_pool ''test-volume'' 2147483648 (fake_init, []) =
        (Return None, tp2, s2) \<and>
      find (\<lambda>x. LVName x = ''test-volume'') (Volumes tp2) = Some v' \<and> LVSize v' = 2147483648) \<and>
   EnsureVolumeIsPresent fakeExecCommand test_pool ''test-volume'' 1073741824 (fake_init, []) =
     (Return None, test_pool\<lparr>Volumes := [test_volume]\<rparr>,
      (fake_init, [lvs_report test_pool, findmnt test_volume])) \<and>
   filter is_extend (issued [] (fake_init, [lvs_report test_pool, findmnt test_volume])) = []"
proof -
  have nonneg: "0 \<le> LVSize test_volume"
    by (simp add: test_volume_fields)
  have larger: "LVSize test_volume < 2147483648"
    by (simp add: test_volume_fields)
  have ok: "Err (fst (fakeExecCommand (lvextend 2147483648 test_volume) fake_init)) = None"
    by code_simp
  have rep: "reports fakeExecCommand (test_pool\<lparr>Volumes := [test_volume]\<rparr>)
               (snd (fakeExecCommand (lvextend 2147483648 test_volume) fake_init)) ''test-volume'' 2147483648"
    by code_simp
  have equal: "1073741824 \<le> LVSize test_volume"
    by (simp add: test_volume_fields)
  note big = EnsureVolumeIsPresent_extends_once
      [where be = fakeExecCommand and sz = 2147483648, OF fake_lookup_present nonneg]
  note same = EnsureVolumeIsPresent_extends_once
      [where be = fakeExecCommand and sz = 1073741824, OF fake_lookup_present nonneg]
  have a: "filter is_extend
             (issued [] (snd (snd (EnsureVolumeIsPresent fakeExecCommand test_pool ''test-volume'' 2147483648
                                     (fake_init, []))))) =
             [[''/usr/sbin/lvextend'', ''--size'', AsString 2147483648, ''--resizefs'', DeviceName test_volume]]"
    using big larger by blast
  have b: "\<exists>tp2 s2 v'.
      EnsureVolumeIsPresent fakeExecCommand test_pool ''test-volume'' 2147483648 (fake_init, []) =
        (Return None, tp2, s2) \<and>
      find (\<lambda>x. LVName x = ''test-volume'') (Volumes tp2) = Some v' \<and> LVSize v' = 2147483648"
    using big larger ok rep by blast
  have c: "EnsureVolumeIsPresent fakeExecCommand test_pool ''test-volume'' 1073741824 (fake_init, []) =
             (Return None, test_pool\<lparr>Volumes := [test_volume]\<rparr>,
              (fake_init, [lvs_report test_pool, findmnt test_volume])) \<and>
           filter is_extend (issued [] (fake_init, [lvs_report test_pool, findmnt test_volume])) = []"
    using same equal by blast
  show ?thesis
    using a b c by (simp add: AsString_2G test_volume_fields)
qed

lemma fake_create:
  "EnsureVolumeIsPresent fakeExecCommand test_pool ''test-volume'' 1073741824
       (fake_init\<lparr>volumeExists := False\<rparr>, []) =
     (Return None, test_pool\<lparr>Volumes := [test_volume]\<rparr>,
      (fake_init\<lparr>volumeFormatted := True\<rparr>,
       [lvs_report test_pool, lvcreate ''test-volume'' ''/dev/vg0/existing_thin_pool'' 1073741824,
        mkfs ''/dev/vg0/existing_thin_pool'', lvs_report test_pool, findmnt test_volume]))"
  by code_simp

theorem EnsureVolumeIsPresent_idempotent_witness:
  "\<exists>cmds.
     EnsureVolumeIsPresent fakeExecCommand (test_pool\<lparr>Volumes := [test_volume]\<rparr>) ''test-volume'' 1073741824
         (fake_init\<lparr>volumeFormatted := True\<rparr>,
          [lvs_report test_pool, lvcreate ''test-volume'' ''/dev/vg0/existing_thin_pool'' 1073741824,
           mkfs ''/dev/vg0/existing_thin_pool'', lvs_report test_pool, findmnt test_volume]) =
       (Return None, test_pool\<lparr>Volumes := [test_volume]\<rparr>,
        (fake_init\<lparr>volumeFormatted := True\<rparr>,
         [lvs_report test_pool, lvcreate ''test-volume'' ''/dev/vg0/existing_thin_pool'' 1073741824,
          mkfs ''/dev/vg0/existing_thin_pool'', lvs_report test_pool, findmnt test_volume] @ cmds)) \<and>
     (\<forall>c \<in> set cmds. \<not> is_create c \<and> \<not> is_format c \<and> \<not> is_extend c \<and> \<not> is_remove c)"
proof -
  have present: "find (\<lambda>x. LVName x = ''test-volume'') (Volumes (test_pool\<lparr>Volumes := [test_volume]\<rparr>)) =
                   Some test_volume"
    by (simp add: test_volume_fields)
  have enough: "1073741824 \<le> LVSize test_volume"
    by (simp add: test_volume_fields)
  have smaller: "(1073741824 :: int) \<le> 1073741824"
    by simp
  show ?thesis
    using EnsureVolumeIsPresent_idempotent
      [where be = fakeExecCommand and sz = 1073741824 and ?sz2.0 = 1073741824,
       OF fake_read_only fake_create present enough smaller] .
qed


subsection \<open>The copy in thinvolumes.go\<close>

lemma is_query_lvs_report_tv [simp]: "is_query_tv (lvs_report_tv tp)"
  by (simp add: is_query_tv_def lvs_report_tv_def)

lemma query_tv_is_no_change:
  "is_query_tv c \<Longrightarrow> \<not> is_create_tv c \<and> \<not> is_format c \<and> \<not> is_extend c \<and> \<not> is_remove_tv c"
  by (auto simp: is_query_tv_def is_create_tv_def is_format_def is_extend_def is_remove_tv_def)

lemma refreshVolumes_tv_effect:
  assumes "refreshVolumes_tv be tp s = (out, tp', s')"
  shows "s' = (snd (be (lvs_report_tv tp) (fst s)), snd s @ [lvs_report_tv tp])"
    and "lvs_report_tv tp' = lvs_report_tv tp" and "LongName_tv tp' = LongName_tv tp"
    and "VGName_tv tp' = VGName_tv tp"
  using assms
  by (auto simp: refreshVolumes_tv_def execCommand_eq lvs_report_tv_def
      split: option.splits list.splits)

lemma refreshVolumes_tv_again:
  assumes "read_only_tv be" and "refreshVolumes_tv be tp s = (out, tp', s')" and "fst s2 = fst s"
  shows "refreshVolumes_tv be tp' s2 = (out, tp', (fst s2, snd s2 @ [lvs_report_tv tp]))"
proof -
  have names: "lvs_report_tv tp' = lvs_report_tv tp"
    using refreshVolumes_tv_effect(2) [OF assms(2)] .
  have ro: "snd (be (lvs_report_tv tp) (fst s)) = fst s"
    using assms(1) by (simp add: read_only_tv_def)
  define r where "r = fst (be (lvs_report_tv tp) (fst s))"
  have x: "execCommand be (lvs_report_tv tp) s = (r, (fst s, snd s @ [lvs_report_tv tp]))"
    using ro by (simp add: execCommand_eq r_def)
  have x2: "execCommand be (lvs_report_tv tp') s2 = (r, (fst s2, snd s2 @ [lvs_report_tv tp]))"
    using ro names assms(3) by (simp add: execCommand_eq r_def)
  show ?thesis
  proof (cases "Err r")
    case (Some e)
    then show ?thesis
      using assms(2) x x2 by (simp add: refreshVolumes_tv_def)
  next
    case None
    show ?thesis
    proof (cases "Decoded r")
      case no: None
      then show ?thesis
        using assms(2) x x2 None by (simp add: refreshVolumes_tv_def)
    next
      case (Some reps)
      then show ?thesis
        using assms(2) x x2 None by (cases reps) (auto simp: refreshVolumes_tv_def)
    qed
  qed
qed

lemma findVolume_Return:
  assumes "findVolume be tp n s = (Return r, tp1, s1)"
  shows "refreshVolumes_tv be tp s = (Return (), tp1, s1)"
    and "r = find (\<lambda>x. LVName_tv x = n) (Volumes_tv tp1)"
  using assms by (auto simp: findVolume_def split: prod.splits outcome.splits)

lemma findVolume_after_refresh:
  "refreshVolumes_tv be tp s = (Return u, tp1, s1) \<Longrightarrow>
   findVolume be tp n s = (Return (find (\<lambda>x. LVName_tv x = n) (Volumes_tv tp1)), tp1, s1)"
  by (simp add: findVolume_def)

lemma extendVolume_eq:
  "extendVolume be tp n sz (w1, l1) =
     (case Err (fst (be (lvextend_tv tp sz) w1)) of
        Some e \<Rightarrow> Some (Errorf ''failed to extend volume'' e (Combined (fst (be (lvextend_tv tp sz) w1))))
      | None \<Rightarrow> None,
      (snd (be (lvextend_tv tp sz) w1), l1 @ [lvextend_tv tp sz]))"
  by (simp add: extendVolume_def execCommand_eq split: option.splits)

text \<open>
  C2. In \<open>thinvolumes.go\<close>, for a volume that the lookup finds, with a size that is not
  negative, and a larger size asked for: the call runs one command after the lookup,
  \<open>lvextend\<close> with the requested size on \<open>tp.LongName\<close>, the device of the pool and not
  the device of the volume; what it returns is what \<open>lvextend\<close> returned, and the pool is
  as the lookup left it, its record of the volume at the size it had, smaller than the size
  asked for.
\<close>

theorem EnsureVolumeIsPresent_tv_extends_the_pool:
  assumes "findVolume be tp volumeName (w, l) = (Return (Some v), tp1, (w1, l1))"
    and "0 \<le> LVSize_tv v"
    and "LVSize_tv v < sz"
  shows "(\<exists>w2. EnsureVolumeIsPresent_tv be tp volumeName sz (w, l) =
            (Return (fst (extendVolume be tp1 volumeName sz (w1, l1))), tp1,
             (w2, l1 @ [[''/usr/sbin/lvextend'', ''--size'', AsString sz, ''--resizefs'', LongName_tv tp]]))) \<and>
         find (\<lambda>x. LVName_tv x = volumeName) (Volumes_tv tp1) = Some v"
proof -
  have nz: "sz \<noteq> 0"
    using assms(2,3) by simp
  have same: "LongName_tv tp1 = LongName_tv tp"
    using refreshVolumes_tv_effect(3) [OF findVolume_Return(1) [OF assms(1)]] .
  have "EnsureVolumeIsPresent_tv be tp volumeName sz (w, l) =
          (Return (fst (extendVolume be tp1 volumeName sz (w1, l1))), tp1,
           (snd (be (lvextend_tv tp1 sz) w1), l1 @ [lvextend_tv tp1 sz]))"
    using assms(1,3) nz by (simp add: EnsureVolumeIsPresent_tv_def extendVolume_eq)
  moreover have "lvextend_tv tp1 sz =
                   [''/usr/sbin/lvextend'', ''--size'', AsString sz, ''--resizefs'', LongName_tv tp]"
    using same by (simp add: lvextend_tv_def)
  ultimately show ?thesis
    using findVolume_Return(2) [OF assms(1)] by simp
qed

lemma fake_tv_lookup_present:
  "findVolume fakeExecCommand_tv test_pool_tv ''test-volume'' (fake_init_tv, []) =
     (Return (Some test_volume_tv), test_pool_tv\<lparr>Volumes_tv := [test_volume_tv]\<rparr>,
      (fake_init_tv, [lvs_report_tv test_pool_tv]))"
  by code_simp

lemma unchanged_volume_lookup:
  "findVolume unchanged_volume test_pool_tv ''test-volume'' ((), []) =
     (Return (Some test_volume_tv), test_pool_tv\<lparr>Volumes_tv := [test_volume_tv]\<rparr>,
      ((), [lvs_report_tv test_pool_tv]))"
  by code_simp

lemma test_volume_tv_fields:
  "LVSize_tv test_volume_tv = 1073741824" "LVName_tv test_volume_tv = ''test-volume''"
  by (simp_all add: test_volume_tv_def)

lemma extendVolume_unchanged_volume:
  "fst (extendVolume unchanged_volume (test_pool_tv\<lparr>Volumes_tv := [test_volume_tv]\<rparr>) ''test-volume''
          2147483648 ((), [lvs_report_tv test_pool_tv])) = None"
  by code_simp

lemma extendVolume_fake_tv:
  "fst (extendVolume fakeExecCommand_tv (test_pool_tv\<lparr>Volumes_tv := [test_volume_tv]\<rparr>) ''test-volume''
          2147483648 (fake_init_tv, [lvs_report_tv test_pool_tv])) =
     Some (Errorf ''failed to extend volume'' (ExitError 1) ''Command not recognized.'')"
  by code_simp

theorem EnsureVolumeIsPresent_tv_extends_the_pool_witness:
  "(\<exists>w2. EnsureVolumeIsPresent_tv unchanged_volume test_pool_tv ''test-volume'' 2147483648 ((), []) =
      (Return None, test_pool_tv\<lparr>Volumes_tv := [test_volume_tv]\<rparr>,
       (w2, [lvs_report_tv test_pool_tv,
             [''/usr/sbin/lvextend'', ''--size'', ''2147483648B'', ''--resizefs'',
              ''/dev/vg0/existing_thin_pool'']]))) \<and>
   (\<exists>w2. EnsureVolumeIsPresent_tv fakeExecCommand_tv test_pool_tv ''test-volume'' 2147483648
            (fake_init_tv, []) =
      (Return (Some (Errorf ''failed to extend volume'' (ExitError 1) ''Command not recognized.'')),
       test_pool_tv\<lparr>Volumes_tv := [test_volume_tv]\<rparr>,
       (w2, [lvs_report_tv test_pool_tv,
             [''/usr/sbin/lvextend'', ''--size'', ''2147483648B'', ''--resizefs'',
              ''/dev/vg0/existing_thin_pool'']]))) \<and>
   find (\<lambda>x. LVName_tv x = ''test-volume'') (Volumes_tv (test_pool_tv\<lparr>Volumes_tv := [test_volume_tv]\<rparr>)) =
     Some test_volume_tv \<and>
   LVSize_tv test_volume_tv = 1073741824"
proof -
  have nonneg: "0 \<le> LVSize_tv test_volume_tv"
    by (simp add: test_volume_tv_fields)
  have larger: "LVSize_tv test_volume_tv < 2147483648"
    by (simp add: test_volume_tv_fields)
  have pool: "LongName_tv test_pool_tv = ''/dev/vg0/existing_thin_pool''"
    by (simp add: test_pool_tv_def)
  show ?thesis
    using EnsureVolumeIsPresent_tv_extends_the_pool
        [where be = unchanged_volume and sz = 2147483648, OF unchanged_volume_lookup nonneg larger]
      EnsureVolumeIsPresent_tv_extends_the_pool
        [where be = fakeExecCommand_tv and sz = 2147483648, OF fake_tv_lookup_present nonneg larger]
    by (simp add: extendVolume_unchanged_volume extendVolume_fake_tv AsString_2G pool
        test_volume_tv_fields)
qed

text \<open>
  Creating a volume in \<open>thinvolumes.go\<close>: \<open>mkfs.xfs\<close> is run on the device of the pool,
  as in the copy above.
\<close>

lemma createVolume_formats_the_pool:
  "EnsureVolumeIsPresent_tv fakeExecCommand_tv test_pool_tv ''test-volume'' 1073741824
       (fake_init_tv\<lparr>volumeExists_tv := False\<rparr>, []) =
     (Return None, test_pool_tv\<lparr>Volumes_tv := [test_volume_tv]\<rparr>,
      (\<lparr>volumeExists_tv = True, volumeFormatted_tv = True\<rparr>,
       [lvs_report_tv test_pool_tv,
        [''lvcreate'', ''-V'', ''1073741824B'', ''-T'', ''/dev/vg0/existing_thin_pool'', ''-n'',
         ''test-volume''],
        [''/usr/sbin/mkfs.xfs'', ''/dev/vg0/existing_thin_pool''],
        lvs_report_tv test_pool_tv]))"
  by code_simp

text \<open>Building the pool: three parts pass the check and \<open>parts[3]\<close> panics.\<close>

lemma NewThinPool_tv_three_parts_panics:
  assumes "isThinPool_tv be longName s = (True, s1)"
    and "length (Split longName CHR ''/'') = 3"
  shows "NewThinPool_tv be longName s = (Panic, s1)"
  using assms by (simp add: NewThinPool_tv_def)

text \<open>
  C3. In \<open>thinvolumes.go\<close>, on a backend that no command changes, on which every command
  succeeds and \<open>lvs\<close> reports \<open>test-volume\<close> at 1073741824 bytes: a call for 2147483648
  bytes succeeds, and a second call for the same name and the same size, from the pool and
  the state the first call left, succeeds and runs \<open>lvextend\<close> again. The first call
  extended the device of the pool and left the volume and its record at their size, so the
  second call is not a no-op.
\<close>

theorem EnsureVolumeIsPresent_tv_extends_again:
  "EnsureVolumeIsPresent_tv unchanged_volume test_pool_tv ''test-volume'' 2147483648 ((), []) =
     (Return None, test_pool_tv\<lparr>Volumes_tv := [test_volume_tv]\<rparr>,
      ((), [lvs_report_tv test_pool_tv,
            [''/usr/sbin/lvextend'', ''--size'', ''2147483648B'', ''--resizefs'',
             ''/dev/vg0/existing_thin_pool'']])) \<and>
   EnsureVolumeIsPresent_tv unchanged_volume (test_pool_tv\<lparr>Volumes_tv := [test_volume_tv]\<rparr>)
       ''test-volume'' 2147483648
       ((), [lvs_report_tv test_pool_tv,
             [''/usr/sbin/lvextend'', ''--size'', ''2147483648B'', ''--resizefs'',
              ''/dev/vg0/existing_thin_pool'']]) =
     (Return None, test_pool_tv\<lparr>Volumes_tv := [test_volume_tv]\<rparr>,
      ((), [lvs_report_tv test_pool_tv,
            [''/usr/sbin/lvextend'', ''--size'', ''2147483648B'', ''--resizefs'',
             ''/dev/vg0/existing_thin_pool''],
            lvs_report_tv test_pool_tv,
            [''/usr/sbin/lvextend'', ''--size'', ''2147483648B'', ''--resizefs'',
             ''/dev/vg0/existing_thin_pool'']])) \<and>
   is_extend [''/usr/sbin/lvextend'', ''--size'', ''2147483648B'', ''--resizefs'',
              ''/dev/vg0/existing_thin_pool'']"
  by code_simp

lemma unchanged_volume_read_only: "read_only_tv unchanged_volume"
  by (simp add: read_only_tv_def unchanged_volume_def)

text \<open>
  When the first call left the volume in the pool at no less than the size asked for, which
  it does not after it has extended, a second call with an equal or smaller size runs only
  \<open>lvs\<close> and changes nothing.
\<close>

lemma EnsureVolumeIsPresent_tv_ends_with_refresh:
  assumes "EnsureVolumeIsPresent_tv be tp n sz s = (Return None, tp1, s1)"
    and "find (\<lambda>x. LVName_tv x = n) (Volumes_tv tp1) = Some v"
    and "sz \<le> LVSize_tv v"
  shows "\<exists>tpX sX. refreshVolumes_tv be tpX sX = (Return (), tp1, s1)"
proof -
  obtain g tpa sa where g: "findVolume be tp n s = (g, tpa, sa)"
    by (metis prod_cases3)
  show ?thesis
  proof (cases g)
    case (Return r)
    have first: "refreshVolumes_tv be tp s = (Return (), tpa, sa)"
      using findVolume_Return(1) g Return by blast
    have r: "r = find (\<lambda>x. LVName_tv x = n) (Volumes_tv tpa)"
      using findVolume_Return(2) g Return by blast
    show ?thesis
    proof (cases r)
      case None
      then have "createVolume be tpa n sz sa = (Return None, tp1, s1)"
        using assms(1) g Return by (simp add: EnsureVolumeIsPresent_tv_def)
      then show ?thesis
        by (auto simp: createVolume_def split: prod.splits outcome.splits option.splits)
    next
      case (Some v0)
      show ?thesis
      proof (cases "sz \<noteq> 0 \<and> LVSize_tv v0 < sz")
        case True
        then have "tp1 = tpa"
          using assms(1) g Return Some
          by (auto simp: EnsureVolumeIsPresent_tv_def split: prod.splits)
        then have "v = v0"
          using assms(2) r Some by simp
        then show ?thesis
          using True assms(3) by simp
      next
        case False
        then have "tp1 = tpa" "s1 = sa"
          using assms(1) g Return Some by (auto simp: EnsureVolumeIsPresent_tv_def)
        then show ?thesis using first by blast
      qed
    qed
  next
    case Panic
    then show ?thesis using assms(1) g by (simp add: EnsureVolumeIsPresent_tv_def)
  next
    case Fatal
    then show ?thesis using assms(1) g by (simp add: EnsureVolumeIsPresent_tv_def)
  qed
qed

lemma EnsureVolumeIsPresent_tv_idempotent:
  assumes "read_only_tv be"
    and "EnsureVolumeIsPresent_tv be tp volumeName sz (w, l) = (Return None, tp1, (w1, l1))"
    and "find (\<lambda>x. LVName_tv x = volumeName) (Volumes_tv tp1) = Some v"
    and "sz \<le> LVSize_tv v"
    and "sz2 \<le> sz"
  shows "\<exists>cmds. EnsureVolumeIsPresent_tv be tp1 volumeName sz2 (w1, l1) =
                   (Return None, tp1, (w1, l1 @ cmds)) \<and>
           (\<forall>c \<in> set cmds. \<not> is_create_tv c \<and> \<not> is_format c \<and> \<not> is_extend c \<and> \<not> is_remove_tv c)"
proof -
  obtain tpX sX where last: "refreshVolumes_tv be tpX sX = (Return (), tp1, (w1, l1))"
    using EnsureVolumeIsPresent_tv_ends_with_refresh [OF assms(2,3,4)] by blast
  have "w1 = snd (be (lvs_report_tv tpX) (fst sX))"
    using refreshVolumes_tv_effect(1) [OF last] by simp
  then have "fst (w1, l1) = fst sX"
    using assms(1) by (simp add: read_only_tv_def)
  then have again: "refreshVolumes_tv be tp1 (w1, l1) = (Return (), tp1, (w1, l1 @ [lvs_report_tv tpX]))"
    using refreshVolumes_tv_again [OF assms(1) last, of "(w1, l1)"] by simp
  have "findVolume be tp1 volumeName (w1, l1) = (Return (Some v), tp1, (w1, l1 @ [lvs_report_tv tpX]))"
    using findVolume_after_refresh [OF again, of volumeName] assms(3) by simp
  moreover have "\<not> (sz2 \<noteq> 0 \<and> LVSize_tv v < sz2)"
    using assms(4,5) by simp
  ultimately have "EnsureVolumeIsPresent_tv be tp1 volumeName sz2 (w1, l1) =
                     (Return None, tp1, (w1, l1 @ [lvs_report_tv tpX]))"
    by (auto simp: EnsureVolumeIsPresent_tv_def)
  moreover have "\<forall>c \<in> set [lvs_report_tv tpX].
                   \<not> is_create_tv c \<and> \<not> is_format c \<and> \<not> is_extend c \<and> \<not> is_remove_tv c"
    using query_tv_is_no_change by simp
  ultimately show ?thesis by blast
qed

text \<open>
  Removing: a name the lookup does not find gives success and no \<open>lvremove\<close>; a volume it
  finds gets one \<open>lvremove\<close>, and when that succeeds and \<open>lvs\<close> no longer lists the name, a
  second call runs only \<open>lvs\<close> and changes nothing.
\<close>

lemma EnsureVolumeIsAbsent_tv_idempotent:
  assumes "read_only_tv be"
  shows "(findVolume be tp volumeName (w, l) = (Return None, tp1, (w1, l1)) \<longrightarrow>
            EnsureVolumeIsAbsent_tv be tp volumeName (w, l) = (Return None, tp1, (w1, l1)) \<and>
            l1 = l @ [lvs_report_tv tp]) \<and>
         (findVolume be tp volumeName (w, l) = (Return (Some v), tp1, (w1, l1)) \<and>
          Err (fst (be (lvremove_tv tp1 volumeName) w1)) = None \<and>
          reports_none_tv be tp1 (snd (be (lvremove_tv tp1 volumeName) w1)) volumeName \<longrightarrow>
            (\<exists>tp2 w2.
               EnsureVolumeIsAbsent_tv be tp volumeName (w, l) =
                 (Return None, tp2,
                  (w2, l @ [lvs_report_tv tp, lvremove_tv tp volumeName, lvs_report_tv tp])) \<and>
               find (\<lambda>x. LVName_tv x = volumeName) (Volumes_tv tp2) = None \<and>
               EnsureVolumeIsAbsent_tv be tp2 volumeName
                   (w2, l @ [lvs_report_tv tp, lvremove_tv tp volumeName, lvs_report_tv tp]) =
                 (Return None, tp2,
                  (w2, l @ [lvs_report_tv tp, lvremove_tv tp volumeName, lvs_report_tv tp,
                            lvs_report_tv tp]))))"
proof -
  have absent: "EnsureVolumeIsAbsent_tv be tp volumeName (w, l) = (Return None, tp1, (w1, l1)) \<and>
                l1 = l @ [lvs_report_tv tp]"
    if g: "findVolume be tp volumeName (w, l) = (Return None, tp1, (w1, l1))"
    using g refreshVolumes_tv_effect(1) [OF findVolume_Return(1) [OF g]]
    by (simp add: EnsureVolumeIsAbsent_tv_def)
  have present: "\<exists>tp2 w2.
       EnsureVolumeIsAbsent_tv be tp volumeName (w, l) =
         (Return None, tp2, (w2, l @ [lvs_report_tv tp, lvremove_tv tp volumeName, lvs_report_tv tp])) \<and>
       find (\<lambda>x. LVName_tv x = volumeName) (Volumes_tv tp2) = None \<and>
       EnsureVolumeIsAbsent_tv be tp2 volumeName
           (w2, l @ [lvs_report_tv tp, lvremove_tv tp volumeName, lvs_report_tv tp]) =
         (Return None, tp2,
          (w2, l @ [lvs_report_tv tp, lvremove_tv tp volumeName, lvs_report_tv tp, lvs_report_tv tp]))"
    if g: "findVolume be tp volumeName (w, l) = (Return (Some v), tp1, (w1, l1))"
      and ok: "Err (fst (be (lvremove_tv tp1 volumeName) w1)) = None"
      and gone: "reports_none_tv be tp1 (snd (be (lvremove_tv tp1 volumeName) w1)) volumeName"
  proof -
    have first: "refreshVolumes_tv be tp (w, l) = (Return (), tp1, (w1, l1))"
      using findVolume_Return(1) [OF g] .
    have l1: "l1 = l @ [lvs_report_tv tp]"
      using refreshVolumes_tv_effect(1) [OF first] by simp
    have names: "lvs_report_tv tp1 = lvs_report_tv tp" "lvremove_tv tp1 volumeName = lvremove_tv tp volumeName"
      using refreshVolumes_tv_effect(2,4) [OF first] by (simp_all add: lvremove_tv_def)
    obtain out tp2 s2 where r:
      "refreshVolumes_tv be tp1 (snd (be (lvremove_tv tp1 volumeName) w1), l1 @ [lvremove_tv tp1 volumeName]) =
         (out, tp2, s2)"
      by (metis prod_cases3)
    have out: "out = Return ()" and none: "find (\<lambda>x. LVName_tv x = volumeName) (Volumes_tv tp2) = None"
      using r gone
      by (auto simp: reports_none_tv_def refreshVolumes_tv_def execCommand_eq
          split: prod.splits option.splits list.splits)
    have s2: "s2 = (fst s2, l @ [lvs_report_tv tp, lvremove_tv tp volumeName, lvs_report_tv tp])"
      using refreshVolumes_tv_effect(1) [OF r] l1 names by simp
    have call: "EnsureVolumeIsAbsent_tv be tp volumeName (w, l) = (Return None, tp2, s2)"
      using g ok r out by (simp add: EnsureVolumeIsAbsent_tv_def removeVolume_def execCommand_eq)
    have same: "fst s2 = snd (be (lvremove_tv tp1 volumeName) w1)"
      using refreshVolumes_tv_effect(1) [OF r] assms by (simp add: read_only_tv_def)
    have again: "refreshVolumes_tv be tp2 s2 = (Return (), tp2, (fst s2, snd s2 @ [lvs_report_tv tp1]))"
      using refreshVolumes_tv_again [OF assms r, of s2] same out by simp
    have "findVolume be tp2 volumeName s2 = (Return None, tp2, (fst s2, snd s2 @ [lvs_report_tv tp1]))"
      using findVolume_after_refresh [OF again, of volumeName] none by simp
    then have second: "EnsureVolumeIsAbsent_tv be tp2 volumeName s2 =
                         (Return None, tp2, (fst s2, snd s2 @ [lvs_report_tv tp1]))"
      by (simp add: EnsureVolumeIsAbsent_tv_def)
    have "snd s2 @ [lvs_report_tv tp1] =
            l @ [lvs_report_tv tp, lvremove_tv tp volumeName, lvs_report_tv tp, lvs_report_tv tp]"
      using s2 names by (metis append.assoc append_Cons append_Nil snd_conv)
    then show ?thesis
      using call none second s2 by metis
  qed
  show ?thesis
    using absent present by blast
qed

end
